theory Spec2Isabelle
  imports Complex_Main
begin

section \<open>JavaScript values of a request body\<close>

text \<open>
  \<^verbatim>\<open>express.json()\<close> parses the request body into an object whose fields hold JSON
  values; a field that is absent reads as \<^verbatim>\<open>undefined\<close>. Numbers are kept as exact
  rationals: the handler only tests whether a number is zero, and computes with the
  integer pixel dimensions of the template.
\<close>

datatype jsval =
    JUndefined
  | JNull
  | JBool bool
  | JNum rat
  | JStr string
  | JArr "jsval list"
  | JObj "(string \<times> jsval) list"

type_synonym body = "string \<rightharpoonup> jsval"

text \<open>Destructuring \<^verbatim>\<open>const { url, authSecret } = req.body\<close>.\<close>

definition field :: "body \<Rightarrow> string \<Rightarrow> jsval" where
  "field b k = (case b k of None \<Rightarrow> JUndefined | Some v \<Rightarrow> v)"

text \<open>
  What \<^verbatim>\<open>!v\<close> and \<^verbatim>\<open>v ? a : b\<close> test: \<^verbatim>\<open>undefined\<close>, \<^verbatim>\<open>null\<close>, \<^verbatim>\<open>false\<close>,
  \<^verbatim>\<open>0\<close> and the empty string are falsy, every other value is truthy.
\<close>

fun truthy :: "jsval \<Rightarrow> bool" where
  "truthy JUndefined = False"
| "truthy JNull = False"
| "truthy (JBool b) = b"
| "truthy (JNum n) = (n \<noteq> 0)"
| "truthy (JStr s) = (s \<noteq> [])"
| "truthy (JArr xs) = True"
| "truthy (JObj kvs) = True"

text \<open>
  Strict equality \<^verbatim>\<open>===\<close>: primitives are equal when they have the same type and the
  same value. Arrays and objects are equal by reference only; the two parsed from a
  request body are never the value of an environment variable, so they compare unequal
  here.
\<close>

fun strict_equals :: "jsval \<Rightarrow> jsval \<Rightarrow> bool" where
  "strict_equals JUndefined JUndefined = True"
| "strict_equals JNull JNull = True"
| "strict_equals (JBool a) (JBool b) = (a = b)"
| "strict_equals (JNum a) (JNum b) = (a = b)"
| "strict_equals (JStr a) (JStr b) = (a = b)"
| "strict_equals a b = False"

text \<open>\<^verbatim>\<open>Math.round\<close>: the nearest integer, a tie going towards plus infinity.\<close>

definition Math_round :: "rat \<Rightarrow> int" where
  "Math_round x = \<lfloor>x + 1 / 2\<rfloor>"

section \<open>Configuration\<close>

text \<open>
  \<^verbatim>\<open>process.env.AUTH_SECRET\<close> is a string, or \<^verbatim>\<open>undefined\<close> when the variable is
  unset; \<^verbatim>\<open>__dirname\<close> is the directory of the script.
\<close>

record config =
  AUTH_SECRET :: "string option"
  dirname :: string

definition env_value :: "string option \<Rightarrow> jsval" where
  "env_value v = (case v of None \<Rightarrow> JUndefined | Some s \<Rightarrow> JStr s)"

definition TEMPLATE_PATH :: "config \<Rightarrow> string" where
  "TEMPLATE_PATH cfg = dirname cfg @ ''/assets/template-white-elegant.png''"

definition QR_SIZE :: int where
  "QR_SIZE = 384"

section \<open>Images, the overlay and the document\<close>

text \<open>
  An image buffer, seen through its decoded raster: pixel dimensions and the colour of
  each pixel (a hex string such as \<^verbatim>\<open>#000000\<close>).
\<close>

record image =
  img_width :: int
  img_height :: int
  img_pixel :: "nat \<Rightarrow> nat \<Rightarrow> string"

record qr_color =
  dark :: string
  light :: string

record qr_options =
  errorCorrectionLevel :: string
  margin :: nat
  width :: int
  color :: qr_color

record metadata =
  md_width :: int
  md_height :: int

record overlay =
  ov_input :: image
  ov_top :: int
  ov_left :: int

text \<open>
  The calls made on the PDF document, with their arguments: \<^verbatim>\<open>doc.image\<close>,
  \<^verbatim>\<open>doc.font\<close>, \<^verbatim>\<open>doc.fontSize\<close> and \<^verbatim>\<open>doc.text\<close>.
\<close>

datatype pdf_op =
    Doc_image image int int int int
  | Doc_font string
  | Doc_fontSize int
  | Doc_text jsval int int string int

record pdf_page =
  page_size :: "int \<times> int"
  page_margin :: int
  page_ops :: "pdf_op list"

record pdf_doc =
  doc_size :: "int \<times> int"
  doc_margin :: int
  doc_pages :: "pdf_page list"
  doc_ended :: bool

text \<open>
  \<^verbatim>\<open>new PDFDocument({ size, margin })\<close> keeps its options and opens the document
  with its first page, of that size and margin. Each later call is recorded on the
  current (last) page. The handler itself never asks for another page, but
  \<^verbatim>\<open>doc.text\<close> lays its text out from the given \<open>y\<close> downwards, and when the wrapped
  text does not fit on the page \<^verbatim>\<open>pdfkit\<close> continues it on new pages, each opened with
  the size and margin of the document.
\<close>

definition new_PDFDocument :: "int \<times> int \<Rightarrow> int \<Rightarrow> pdf_doc" where
  "new_PDFDocument sz m =
     \<lparr>doc_size = sz, doc_margin = m,
      doc_pages = [\<lparr>page_size = sz, page_margin = m, page_ops = []\<rparr>], doc_ended = False\<rparr>"

definition add_pages :: "nat \<Rightarrow> pdf_doc \<Rightarrow> pdf_doc" where
  "add_pages n d =
     d\<lparr>doc_pages := doc_pages d @
          replicate n \<lparr>page_size = doc_size d, page_margin = doc_margin d, page_ops = []\<rparr>\<rparr>"

definition record_op :: "pdf_op \<Rightarrow> pdf_doc \<Rightarrow> pdf_doc" where
  "record_op c d =
     (case rev (doc_pages d) of
        [] \<Rightarrow> d
      | p # ps \<Rightarrow> d\<lparr>doc_pages := rev ps @ [p\<lparr>page_ops := page_ops p @ [c]\<rparr>]\<rparr>)"

section \<open>The libraries, the response and the world\<close>

text \<open>
  The packages \<^verbatim>\<open>qrcode\<close>, \<^verbatim>\<open>sharp\<close> and \<^verbatim>\<open>pdfkit\<close> are collaborators of the
  handler. Each call either returns its value or throws; a thrown error is represented
  by its message (\<open>Inl\<close>). Of \<^verbatim>\<open>pdfkit\<close> the handler meets three things:
  \<open>lib_pdfkit_throws\<close> tells whether a call on the document throws,
  \<open>lib_pdfkit_text_pages\<close> how many pages the layout of a text call adds to the document
  in its current state (none when the text fits), and \<open>lib_pdfkit_ascender\<close> the
  ascender of a font as a fraction of the font size.
\<close>

record libs =
  lib_QRCode_toBuffer :: "jsval \<Rightarrow> qr_options \<Rightarrow> string + image"
  lib_sharp_toBuffer :: "string \<Rightarrow> string + image"
  lib_sharp_metadata :: "image \<Rightarrow> string + metadata"
  lib_sharp_composite :: "image \<Rightarrow> overlay list \<Rightarrow> string + image"
  lib_pdfkit_throws :: "pdf_op \<Rightarrow> string option"
  lib_pdfkit_text_pages :: "pdf_doc \<Rightarrow> pdf_op \<Rightarrow> nat"
  lib_pdfkit_ascender :: "string \<Rightarrow> rat"

text \<open>
  What the handler does besides answering: log lines (level and message; the timestamp
  and the metadata object of a line, which alone carry the request id, are left out)
  and the calls into the image libraries.
\<close>

datatype event =
    Log string string
  | QRCode_toBuffer jsval qr_options
  | Sharp_toBuffer string
  | Sharp_metadata image
  | Sharp_composite image "overlay list"

fun is_call :: "event \<Rightarrow> bool" where
  "is_call (Log l m) = False"
| "is_call e = True"

text \<open>
  The response: status code (200 until set), the headers set with \<^verbatim>\<open>setHeader\<close>, the
  body sent with \<^verbatim>\<open>json\<close> (which also ends the response), and whether
  \<^verbatim>\<open>doc.pipe(res)\<close> has been called. The document itself lives in the world, where the
  handler goes on writing to it after the pipe.
\<close>

record response =
  res_status :: nat
  res_headers :: "(string \<times> string) list"
  res_json :: "jsval option"
  res_piped :: bool

record world =
  w_events :: "event list"
  w_res :: response
  w_doc :: "pdf_doc option"

definition init_world :: world where
  "init_world =
     \<lparr>w_events = [],
      w_res = \<lparr>res_status = 200, res_headers = [], res_json = None, res_piped = False\<rparr>,
      w_doc = None\<rparr>"

text \<open>A computation on the world that returns a value or throws.\<close>

type_synonym 'a io = "world \<Rightarrow> (string + 'a) \<times> world"

definition io_bind :: "'a io \<Rightarrow> ('a \<Rightarrow> 'b io) \<Rightarrow> 'b io" where
  "io_bind m f = (\<lambda>w. case m w of (Inl e, w') \<Rightarrow> (Inl e, w') | (Inr x, w') \<Rightarrow> f x w')"

definition io_then :: "unit io \<Rightarrow> 'b io \<Rightarrow> 'b io" where
  "io_then m k = io_bind m (\<lambda>u. k)"

definition emit :: "event \<Rightarrow> world \<Rightarrow> world" where
  "emit e w = w\<lparr>w_events := w_events w @ [e]\<rparr>"

definition logger_info :: "string \<Rightarrow> unit io" where
  "logger_info msg = (\<lambda>w. (Inr (), emit (Log ''info'' msg) w))"

definition logger_debug :: "string \<Rightarrow> unit io" where
  "logger_debug msg = (\<lambda>w. (Inr (), emit (Log ''debug'' msg) w))"

definition logger_warn :: "string \<Rightarrow> unit io" where
  "logger_warn msg = (\<lambda>w. (Inr (), emit (Log ''warn'' msg) w))"

definition logger_error :: "string \<Rightarrow> unit io" where
  "logger_error msg = (\<lambda>w. (Inr (), emit (Log ''error'' msg) w))"

text \<open>An awaited library call: it is recorded, and its result returned or thrown.\<close>

definition await :: "event \<Rightarrow> (string + 'a) \<Rightarrow> 'a io" where
  "await e r = (\<lambda>w. (r, emit e w))"

text \<open>\<^verbatim>\<open>res.status(code).json(v)\<close> and \<^verbatim>\<open>res.setHeader(k, v)\<close>.\<close>

definition res_status_json :: "nat \<Rightarrow> jsval \<Rightarrow> unit io" where
  "res_status_json code v =
     (\<lambda>w. (Inr (), w\<lparr>w_res := (w_res w)\<lparr>res_status := code, res_json := Some v\<rparr>\<rparr>))"

definition res_setHeader :: "string \<Rightarrow> string \<Rightarrow> unit io" where
  "res_setHeader k v =
     (\<lambda>w. (Inr (), w\<lparr>w_res := (w_res w)\<lparr>res_headers := res_headers (w_res w) @ [(k, v)]\<rparr>\<rparr>))"

text \<open>The document: creation, \<^verbatim>\<open>doc.pipe(res)\<close>, a call on it, \<^verbatim>\<open>doc.end()\<close>.\<close>

definition doc_new :: "int \<times> int \<Rightarrow> int \<Rightarrow> unit io" where
  "doc_new sz m = (\<lambda>w. (Inr (), w\<lparr>w_doc := Some (new_PDFDocument sz m)\<rparr>))"

definition doc_pipe :: "unit io" where
  "doc_pipe = (\<lambda>w. (Inr (), w\<lparr>w_res := (w_res w)\<lparr>res_piped := True\<rparr>\<rparr>))"

fun pages_added :: "libs \<Rightarrow> pdf_doc \<Rightarrow> pdf_op \<Rightarrow> nat" where
  "pages_added L d (Doc_text t x y a w) = lib_pdfkit_text_pages L d (Doc_text t x y a w)"
| "pages_added L d c = 0"

definition doc_call :: "libs \<Rightarrow> pdf_op \<Rightarrow> unit io" where
  "doc_call L c =
     (\<lambda>w. case lib_pdfkit_throws L c of
             Some e \<Rightarrow> (Inl e, w)
           | None \<Rightarrow>
               (Inr (),
                w\<lparr>w_doc := map_option (\<lambda>d. add_pages (pages_added L d c) (record_op c d))
                              (w_doc w)\<rparr>))"

definition doc_end :: "unit io" where
  "doc_end = (\<lambda>w. (Inr (), w\<lparr>w_doc := map_option (\<lambda>d. d\<lparr>doc_ended := True\<rparr>) (w_doc w)\<rparr>))"

section \<open>The handler of POST /generate-qr-pdf\<close>

definition qr_opts :: qr_options where
  "qr_opts =
     \<lparr>errorCorrectionLevel = ''H'', margin = 1, width = QR_SIZE,
      color = \<lparr>dark = ''#000000'', light = ''#ffffff''\<rparr>\<rparr>"

text \<open>
  \<^verbatim>\<open>generateQRCode\<close>: whatever \<^verbatim>\<open>QRCode.toBuffer\<close> throws is logged and replaced by
  the error \<^verbatim>\<open>Failed to generate QR code\<close>.
\<close>

definition generateQRCode :: "libs \<Rightarrow> jsval \<Rightarrow> image io" where
  "generateQRCode L url =
     (\<lambda>w. case await (QRCode_toBuffer url qr_opts) (lib_QRCode_toBuffer L url qr_opts) w of
             (Inr qrBuffer, w') \<Rightarrow> (Inr qrBuffer, w')
           | (Inl err, w') \<Rightarrow>
               (Inl ''Failed to generate QR code'',
                snd (logger_error ''Error generating QR code'' w')))"

definition qrOverlay :: "image \<Rightarrow> int \<Rightarrow> overlay" where
  "qrOverlay qrCodeBuffer templateWidth =
     \<lparr>ov_input = qrCodeBuffer,
      ov_top = 481,
      ov_left = Math_round ((of_int templateWidth - of_int QR_SIZE) / 2)\<rparr>"

text \<open>
  The end of the \<^verbatim>\<open>try\<close> block, from the comment \<^verbatim>\<open>// Create PDF\<close> on: the
  document is created, the headers are set and the document is piped into the response
  before the image and the text are drawn on it.
\<close>

definition create_pdf :: "libs \<Rightarrow> jsval \<Rightarrow> int \<Rightarrow> int \<Rightarrow> image \<Rightarrow> unit io" where
  "create_pdf L url templateWidth templateHeight processedImage =
     io_then (logger_debug ''Creating PDF document'')
    (io_then (doc_new (templateWidth, templateHeight) 0)
    (io_then (res_setHeader ''Content-Type'' ''application/pdf'')
    (io_then (res_setHeader ''Content-Disposition''
                ''attachment; filename=qr-instructions.pdf'')
    (io_then doc_pipe
    (io_then (logger_debug ''Adding image to PDF'')
    (io_then (doc_call L (Doc_image processedImage 0 0 templateWidth templateHeight))
    (let fontSize = Math_round (of_int templateWidth * 0.03);
         textY = Math_round (of_int templateHeight * 0.9) in
     io_then (logger_debug ''Adding URL text to PDF'')
    (io_then (doc_call L (Doc_font ''Helvetica-Bold''))
    (io_then (doc_call L (Doc_fontSize fontSize))
    (io_then (doc_call L (Doc_text url 0 textY ''center'' templateWidth))
    (io_then doc_end
    (logger_info ''PDF generation completed successfully''))))))))))))"

text \<open>The part of the \<^verbatim>\<open>try\<close> block after the secret has been accepted.\<close>

definition pipeline :: "config \<Rightarrow> libs \<Rightarrow> jsval \<Rightarrow> unit io" where
  "pipeline cfg L url =
     io_then (logger_debug ''Auth secret validated successfully'')
    (io_then (logger_debug ''Generating QR code'')
    (io_bind (generateQRCode L url) (\<lambda>qrCodeBuffer.
     io_then (logger_debug ''QR code generated successfully'')
    (io_then (logger_debug ''Loading template image'')
    (io_bind (await (Sharp_toBuffer (TEMPLATE_PATH cfg))
                (lib_sharp_toBuffer L (TEMPLATE_PATH cfg))) (\<lambda>templateBuffer.
     io_then (logger_debug ''Template image loaded successfully'')
    (io_bind (await (Sharp_metadata templateBuffer)
                (lib_sharp_metadata L templateBuffer)) (\<lambda>templateMetadata.
     let templateWidth = md_width templateMetadata;
         templateHeight = md_height templateMetadata in
     io_then (logger_debug ''Template dimensions obtained'')
    (io_then (logger_debug ''QR code position calculated'')
    (io_then (logger_debug ''Compositing images'')
    (io_bind (await (Sharp_composite templateBuffer [qrOverlay qrCodeBuffer templateWidth])
                (lib_sharp_composite L templateBuffer
                   [qrOverlay qrCodeBuffer templateWidth])) (\<lambda>processedImage.
     io_then (logger_debug ''Image composition completed'')
       (create_pdf L url templateWidth templateHeight processedImage)))))))))))))"

text \<open>The \<^verbatim>\<open>try\<close> block: validation, the secret, then the pipeline.\<close>

definition try_block :: "config \<Rightarrow> libs \<Rightarrow> body \<Rightarrow> unit io" where
  "try_block cfg L b =
     io_then (logger_debug ''Raw request body received'')
    (let url = field b ''url''; authSecret = field b ''authSecret'' in
     io_then (logger_debug ''Request parameters received'')
    (if \<not> truthy url \<or> \<not> truthy authSecret then
       io_then (logger_warn ''Validation failed - missing parameters'')
         (res_status_json 400
            (JObj [(''error'', JStr ''Missing required parameters''),
                   (''details'',
                    JObj [(''url'', JStr (if truthy url then ''provided'' else ''missing'')),
                          (''authSecret'',
                           JStr (if truthy authSecret then ''provided'' else ''missing''))])]))
     else
       io_then (logger_debug ''Validating auth secret'')
      (if \<not> strict_equals authSecret (env_value (AUTH_SECRET cfg)) then
         io_then (logger_warn ''Authentication failed - invalid secret'')
           (res_status_json 401 (JObj [(''error'', JStr ''Invalid authentication secret'')]))
       else pipeline cfg L url)))"

text \<open>The \<^verbatim>\<open>catch\<close>: the error is logged and answered with status 500 and its message.\<close>

definition catch_block :: "string \<Rightarrow> unit io" where
  "catch_block message =
     io_then (logger_error ''Error during PDF generation'')
       (res_status_json 500
          (JObj [(''error'', JStr ''Failed to process image''),
                 (''details'', JStr message)]))"

text \<open>
  The handler: the \<^verbatim>\<open>try\<close> block, and the \<^verbatim>\<open>catch\<close> when it throws. The result is
  the world the request leaves behind.
\<close>

definition generate_qr_pdf :: "config \<Rightarrow> libs \<Rightarrow> body \<Rightarrow> world" where
  "generate_qr_pdf cfg L b =
     (case io_then (logger_info ''Starting new PDF generation request'')
             (try_block cfg L b) init_world of
        (Inr u, w) \<Rightarrow> w
      | (Inl message, w) \<Rightarrow> snd (catch_block message w))"

section \<open>Observations on a finished request\<close>

text \<open>The library calls a request made, in order, and the overlays it composited.\<close>

definition library_calls :: "world \<Rightarrow> event list" where
  "library_calls w = filter is_call (w_events w)"

fun overlays_of :: "event \<Rightarrow> overlay list" where
  "overlays_of (Sharp_composite t ovs) = ovs"
| "overlays_of e = []"

definition composited_overlays :: "world \<Rightarrow> overlay list" where
  "composited_overlays w = concat (map overlays_of (w_events w))"

text \<open>The x coordinate of the centre of an overlay: its left edge plus half its width.\<close>

definition overlay_center_x :: "overlay \<Rightarrow> rat" where
  "overlay_center_x ov = of_int (ov_left ov) + of_int (img_width (ov_input ov)) / 2"

text \<open>
  A request ends with the complete document when no JSON body was sent, the document was
  piped into the response and the document was ended.
\<close>

definition complete_pdf :: "world \<Rightarrow> bool" where
  "complete_pdf w =
     (res_json (w_res w) = None \<and> res_piped (w_res w) \<and>
      (case w_doc w of None \<Rightarrow> False | Some d \<Rightarrow> doc_ended d))"

text \<open>The error the \<^verbatim>\<open>try\<close> block throws, if a stage fails.\<close>

definition thrown :: "config \<Rightarrow> libs \<Rightarrow> body \<Rightarrow> string option" where
  "thrown cfg L b =
     (case fst (io_then (logger_info ''Starting new PDF generation request'')
                  (try_block cfg L b) init_world) of
        Inl message \<Rightarrow> Some message
      | Inr u \<Rightarrow> None)"

text \<open>
  The body the client receives. \<^verbatim>\<open>res.json\<close> writes its body and ends the response at
  once. A piped document hands its bytes to the response only when the handler has
  given control back to the event loop, and between \<^verbatim>\<open>doc.pipe(res)\<close> and the end of
  the handler (\<^verbatim>\<open>doc.end()\<close> or the \<^verbatim>\<open>catch\<close>) nothing is awaited: a response
  that \<^verbatim>\<open>res.json\<close> has ended takes nothing from the pipe, and otherwise the body is
  what the document holds, finished or not.
\<close>

datatype body_sent = No_body | Json_body jsval | Pdf_body pdf_doc

definition body_sent :: "world \<Rightarrow> body_sent" where
  "body_sent w =
     (case res_json (w_res w) of
        Some v \<Rightarrow> Json_body v
      | None \<Rightarrow>
          (if res_piped (w_res w)
           then (case w_doc w of None \<Rightarrow> No_body | Some d \<Rightarrow> Pdf_body d)
           else No_body))"

text \<open>
  The text layers of a document: \<^verbatim>\<open>pdfkit\<close> draws a text in the font and the size
  that were set last (Helvetica at 12 to begin with), with the top of its first line at
  the \<open>y\<close> it is given. The baseline of that line lies one ascender of the font lower.
\<close>

record text_layer =
  tl_text :: jsval
  tl_font :: string
  tl_size :: int
  tl_x :: int
  tl_top :: int
  tl_align :: string
  tl_width :: int

fun text_layers :: "string \<Rightarrow> int \<Rightarrow> pdf_op list \<Rightarrow> text_layer list" where
  "text_layers f s [] = []"
| "text_layers f s (Doc_font f' # cs) = text_layers f' s cs"
| "text_layers f s (Doc_fontSize s' # cs) = text_layers f s' cs"
| "text_layers f s (Doc_text t x y a w # cs) =
     \<lparr>tl_text = t, tl_font = f, tl_size = s, tl_x = x, tl_top = y, tl_align = a,
      tl_width = w\<rparr> # text_layers f s cs"
| "text_layers f s (Doc_image i x y w h # cs) = text_layers f s cs"

definition baseline_y :: "libs \<Rightarrow> text_layer \<Rightarrow> rat" where
  "baseline_y L t = of_int (tl_top t) + lib_pdfkit_ascender L (tl_font t) * of_int (tl_size t)"

text \<open>The text layers of the document of a request.\<close>

definition url_layers :: "world \<Rightarrow> text_layer list" where
  "url_layers w =
     (case w_doc w of
        None \<Rightarrow> []
      | Some d \<Rightarrow> text_layers ''Helvetica'' 12 (concat (map page_ops (doc_pages d))))"

text \<open>
  The state of the document when the handler calls \<^verbatim>\<open>doc.text\<close>, and that call.
\<close>

abbreviation doc_at_text :: "image \<Rightarrow> int \<Rightarrow> int \<Rightarrow> pdf_doc" where
  "doc_at_text img W H \<equiv>
     \<lparr>doc_size = (W, H), doc_margin = 0,
      doc_pages = [\<lparr>page_size = (W, H), page_margin = 0,
         page_ops = [Doc_image img 0 0 W H, Doc_font ''Helvetica-Bold'',
            Doc_fontSize (Math_round (of_int W * 0.03))]\<rparr>],
      doc_ended = False\<rparr>"

abbreviation text_call :: "jsval \<Rightarrow> int \<Rightarrow> int \<Rightarrow> pdf_op" where
  "text_call url W H \<equiv> Doc_text url 0 (Math_round (of_int H * 0.9)) ''center'' W"

section \<open>Libraries to run the handler on\<close>

text \<open>
  Well-behaved libraries for running the handler on concrete requests: the encoder
  returns a white square of the requested width, the template is 1000 by 1414 pixels,
  compositing returns the template, and no call on the document throws. The text layout
  is a coarse one: a glyph advances 0.6 of the font size, a line is 1.2 of the font
  size high, and a text whose lines do not fit between its \<open>y\<close> and the bottom of the
  page continues on one more page. The ascender is that of Helvetica and Helvetica-Bold,
  718 units of 1000.
\<close>

fun fontSize_of :: "pdf_op list \<Rightarrow> int \<Rightarrow> int" where
  "fontSize_of [] s = s"
| "fontSize_of (Doc_fontSize s' # cs) s = fontSize_of cs s'"
| "fontSize_of (c # cs) s = fontSize_of cs s"

definition coarse_text_pages :: "pdf_doc \<Rightarrow> pdf_op \<Rightarrow> nat" where
  "coarse_text_pages d c =
     (case c of
        Doc_text (JStr u) x y a w \<Rightarrow>
          (let p = last (doc_pages d);
               f = fontSize_of (page_ops p) 12;
               per_line = max 1 (nat (w * 10 div (f * 6)));
               lines = (length u + per_line - 1) div per_line;
               line_height = max 1 (f * 12 div 10);
               fits = nat ((snd (page_size p) - page_margin p - y) div line_height)
           in if lines \<le> fits then 0 else 1)
      | _ \<Rightarrow> 0)"

definition blank_image :: "int \<Rightarrow> int \<Rightarrow> image" where
  "blank_image w h = \<lparr>img_width = w, img_height = h, img_pixel = (\<lambda>x y. ''#ffffff'')\<rparr>"

definition stub_libs :: libs where
  "stub_libs =
     \<lparr>lib_QRCode_toBuffer = (\<lambda>u opts. Inr (blank_image (width opts) (width opts))),
      lib_sharp_toBuffer = (\<lambda>p. Inr (blank_image 1000 1414)),
      lib_sharp_metadata = (\<lambda>i. Inr \<lparr>md_width = img_width i, md_height = img_height i\<rparr>),
      lib_sharp_composite = (\<lambda>t ovs. Inr t),
      lib_pdfkit_throws = (\<lambda>c. None),
      lib_pdfkit_text_pages = coarse_text_pages,
      lib_pdfkit_ascender = (\<lambda>f. 718 / 1000)\<rparr>"

text \<open>The same libraries, except that drawing text on the document throws.\<close>

fun text_throws :: "pdf_op \<Rightarrow> string option" where
  "text_throws (Doc_text t x y a w) = Some ''RenderError''"
| "text_throws c = None"

definition stub_libs_text_fails :: libs where
  "stub_libs_text_fails = stub_libs\<lparr>lib_pdfkit_throws := text_throws\<rparr>"

definition cfg0 :: config where
  "cfg0 = \<lparr>AUTH_SECRET = Some ''s3cret'', dirname = ''/app''\<rparr>"

definition body_ok :: body where
  "body_ok = [''url'' \<mapsto> JStr ''https://example.com/x'', ''authSecret'' \<mapsto> JStr ''s3cret'']"

text \<open>A valid request whose URL has 200 characters.\<close>

definition url_200 :: string where
  "url_200 = ''https://example.com/'' @ replicate 180 CHR ''a''"

definition body_long :: body where
  "body_long = [''url'' \<mapsto> JStr url_200, ''authSecret'' \<mapsto> JStr ''s3cret'']"

section \<open>The raster of the QR encoder\<close>
















section \<open>Running the handler, path by path\<close>

lemmas io_defs = io_bind_def io_then_def emit_def logger_info_def logger_debug_def
  logger_warn_def logger_error_def await_def res_status_json_def res_setHeader_def
  doc_new_def doc_pipe_def doc_call_def doc_end_def

lemma round_is_Math_round: "round x = Math_round x"
  by (simp add: round_def Math_round_def)

text \<open>The last part of the pipeline: all four calls on the document succeed, or one throws.\<close>

lemma create_pdf_ok:
  assumes "lib_pdfkit_throws L (Doc_image img 0 0 W H) = None"
    and "lib_pdfkit_throws L (Doc_font ''Helvetica-Bold'') = None"
    and "lib_pdfkit_throws L (Doc_fontSize (Math_round (of_int W * 0.03))) = None"
    and "lib_pdfkit_throws L (Doc_text url 0 (Math_round (of_int H * 0.9)) ''center'' W) = None"
  shows "create_pdf L url W H img w =
    (Inr (),
     w\<lparr>w_events := w_events w @
          [Log ''debug'' ''Creating PDF document'', Log ''debug'' ''Adding image to PDF'',
           Log ''debug'' ''Adding URL text to PDF'',
           Log ''info'' ''PDF generation completed successfully''],
       w_res := (w_res w)\<lparr>res_headers := res_headers (w_res w) @
          [(''Content-Type'', ''application/pdf''),
           (''Content-Disposition'', ''attachment; filename=qr-instructions.pdf'')],
          res_piped := True\<rparr>,
       w_doc := Some \<lparr>doc_size = (W, H), doc_margin = 0,
          doc_pages = \<lparr>page_size = (W, H), page_margin = 0,
            page_ops = [Doc_image img 0 0 W H, Doc_font ''Helvetica-Bold'',
               Doc_fontSize (Math_round (of_int W * 0.03)),
               Doc_text url 0 (Math_round (of_int H * 0.9)) ''center'' W]\<rparr>
            # replicate (lib_pdfkit_text_pages L (doc_at_text img W H) (text_call url W H))
                \<lparr>page_size = (W, H), page_margin = 0, page_ops = []\<rparr>,
          doc_ended = True\<rparr>\<rparr>)"
  using assms unfolding create_pdf_def
  by (simp add: io_defs Let_def record_op_def new_PDFDocument_def add_pages_def)

lemma create_pdf_throws:
  assumes "\<not> (lib_pdfkit_throws L (Doc_image img 0 0 W H) = None
    \<and> lib_pdfkit_throws L (Doc_font ''Helvetica-Bold'') = None
    \<and> lib_pdfkit_throws L (Doc_fontSize (Math_round (of_int W * 0.03))) = None
    \<and> lib_pdfkit_throws L (Doc_text url 0 (Math_round (of_int H * 0.9)) ''center'' W) = None)"
  shows "\<exists>e w'. create_pdf L url W H img w = (Inl e, w')
     \<and> library_calls w' = library_calls w
     \<and> composited_overlays w' = composited_overlays w
     \<and> w_res w' = (w_res w)\<lparr>res_headers := res_headers (w_res w) @
          [(''Content-Type'', ''application/pdf''),
           (''Content-Disposition'', ''attachment; filename=qr-instructions.pdf'')],
          res_piped := True\<rparr>
     \<and> (\<exists>d. w_doc w' = Some d \<and> \<not> doc_ended d)"
  using assms unfolding create_pdf_def
  by (auto simp add: io_defs Let_def record_op_def new_PDFDocument_def add_pages_def
      library_calls_def composited_overlays_def split: option.split)

text \<open>The pipeline up to the creation of the document: each stage can fail.\<close>

lemma pipeline_qr_fails:
  assumes "lib_QRCode_toBuffer L url qr_opts = Inl e"
  shows "pipeline cfg L url w =
    (Inl ''Failed to generate QR code'',
     w\<lparr>w_events := w_events w @
        [Log ''debug'' ''Auth secret validated successfully'',
         Log ''debug'' ''Generating QR code'',
         QRCode_toBuffer url qr_opts,
         Log ''error'' ''Error generating QR code'']\<rparr>)"
  unfolding pipeline_def generateQRCode_def
  by (simp add: io_defs assms)

lemma pipeline_load_fails:
  assumes "lib_QRCode_toBuffer L url qr_opts = Inr qr"
    and "lib_sharp_toBuffer L (TEMPLATE_PATH cfg) = Inl e"
  shows "pipeline cfg L url w =
    (Inl e,
     w\<lparr>w_events := w_events w @
        [Log ''debug'' ''Auth secret validated successfully'',
         Log ''debug'' ''Generating QR code'',
         QRCode_toBuffer url qr_opts,
         Log ''debug'' ''QR code generated successfully'',
         Log ''debug'' ''Loading template image'',
         Sharp_toBuffer (TEMPLATE_PATH cfg)]\<rparr>)"
  unfolding pipeline_def generateQRCode_def
  by (simp add: io_defs assms)

lemma pipeline_metadata_fails:
  assumes "lib_QRCode_toBuffer L url qr_opts = Inr qr"
    and "lib_sharp_toBuffer L (TEMPLATE_PATH cfg) = Inr tpl"
    and "lib_sharp_metadata L tpl = Inl e"
  shows "pipeline cfg L url w =
    (Inl e,
     w\<lparr>w_events := w_events w @
        [Log ''debug'' ''Auth secret validated successfully'',
         Log ''debug'' ''Generating QR code'',
         QRCode_toBuffer url qr_opts,
         Log ''debug'' ''QR code generated successfully'',
         Log ''debug'' ''Loading template image'',
         Sharp_toBuffer (TEMPLATE_PATH cfg),
         Log ''debug'' ''Template image loaded successfully'',
         Sharp_metadata tpl]\<rparr>)"
  unfolding pipeline_def generateQRCode_def
  by (simp add: io_defs assms)

lemma pipeline_composite_fails:
  assumes "lib_QRCode_toBuffer L url qr_opts = Inr qr"
    and "lib_sharp_toBuffer L (TEMPLATE_PATH cfg) = Inr tpl"
    and "lib_sharp_metadata L tpl = Inr md"
    and "lib_sharp_composite L tpl [qrOverlay qr (md_width md)] = Inl e"
  shows "pipeline cfg L url w =
    (Inl e,
     w\<lparr>w_events := w_events w @
        [Log ''debug'' ''Auth secret validated successfully'',
         Log ''debug'' ''Generating QR code'',
         QRCode_toBuffer url qr_opts,
         Log ''debug'' ''QR code generated successfully'',
         Log ''debug'' ''Loading template image'',
         Sharp_toBuffer (TEMPLATE_PATH cfg),
         Log ''debug'' ''Template image loaded successfully'',
         Sharp_metadata tpl,
         Log ''debug'' ''Template dimensions obtained'',
         Log ''debug'' ''QR code position calculated'',
         Log ''debug'' ''Compositing images'',
         Sharp_composite tpl [qrOverlay qr (md_width md)]]\<rparr>)"
  unfolding pipeline_def generateQRCode_def
  by (simp add: io_defs assms Let_def)

lemma pipeline_composited:
  assumes "lib_QRCode_toBuffer L url qr_opts = Inr qr"
    and "lib_sharp_toBuffer L (TEMPLATE_PATH cfg) = Inr tpl"
    and "lib_sharp_metadata L tpl = Inr md"
    and "lib_sharp_composite L tpl [qrOverlay qr (md_width md)] = Inr proc"
  shows "pipeline cfg L url w =
    create_pdf L url (md_width md) (md_height md) proc
     (w\<lparr>w_events := w_events w @
        [Log ''debug'' ''Auth secret validated successfully'',
         Log ''debug'' ''Generating QR code'',
         QRCode_toBuffer url qr_opts,
         Log ''debug'' ''QR code generated successfully'',
         Log ''debug'' ''Loading template image'',
         Sharp_toBuffer (TEMPLATE_PATH cfg),
         Log ''debug'' ''Template image loaded successfully'',
         Sharp_metadata tpl,
         Log ''debug'' ''Template dimensions obtained'',
         Log ''debug'' ''QR code position calculated'',
         Log ''debug'' ''Compositing images'',
         Sharp_composite tpl [qrOverlay qr (md_width md)],
         Log ''debug'' ''Image composition completed'']\<rparr>)"
  unfolding pipeline_def generateQRCode_def
  by (simp add: io_defs assms Let_def)

text \<open>The handler, by what the validation and the secret check decide.\<close>

lemma handler_missing:
  assumes "\<not> truthy (field b ''url'') \<or> \<not> truthy (field b ''authSecret'')"
  shows "generate_qr_pdf cfg L b =
     \<lparr>w_events = [Log ''info'' ''Starting new PDF generation request'',
                  Log ''debug'' ''Raw request body received'',
                  Log ''debug'' ''Request parameters received'',
                  Log ''warn'' ''Validation failed - missing parameters''],
      w_res = \<lparr>res_status = 400, res_headers = [],
               res_json = Some (JObj [(''error'', JStr ''Missing required parameters''),
                   (''details'',
                    JObj [(''url'',
                           JStr (if truthy (field b ''url'') then ''provided'' else ''missing'')),
                          (''authSecret'',
                           JStr (if truthy (field b ''authSecret'') then ''provided''
                                 else ''missing''))])]),
               res_piped = False\<rparr>,
      w_doc = None\<rparr>"
  using assms unfolding generate_qr_pdf_def try_block_def
  by (simp add: io_defs init_world_def Let_def)

lemma handler_unauthorised:
  assumes "truthy (field b ''url'')" and "truthy (field b ''authSecret'')"
    and "\<not> strict_equals (field b ''authSecret'') (env_value (AUTH_SECRET cfg))"
  shows "generate_qr_pdf cfg L b =
     \<lparr>w_events = [Log ''info'' ''Starting new PDF generation request'',
                  Log ''debug'' ''Raw request body received'',
                  Log ''debug'' ''Request parameters received'',
                  Log ''debug'' ''Validating auth secret'',
                  Log ''warn'' ''Authentication failed - invalid secret''],
      w_res = \<lparr>res_status = 401, res_headers = [],
               res_json = Some (JObj [(''error'', JStr ''Invalid authentication secret'')]),
               res_piped = False\<rparr>,
      w_doc = None\<rparr>"
  using assms unfolding generate_qr_pdf_def try_block_def
  by (simp add: io_defs init_world_def Let_def)

lemma handler_authorised:
  assumes "truthy (field b ''url'')" and "truthy (field b ''authSecret'')"
    and "strict_equals (field b ''authSecret'') (env_value (AUTH_SECRET cfg))"
  shows "generate_qr_pdf cfg L b =
     (case pipeline cfg L (field b ''url'')
             (init_world\<lparr>w_events :=
                [Log ''info'' ''Starting new PDF generation request'',
                 Log ''debug'' ''Raw request body received'',
                 Log ''debug'' ''Request parameters received'',
                 Log ''debug'' ''Validating auth secret'']\<rparr>) of
        (Inr u, w) \<Rightarrow> w
      | (Inl message, w) \<Rightarrow> snd (catch_block message w))"
  using assms unfolding generate_qr_pdf_def try_block_def
  by (simp add: io_then_def io_bind_def logger_info_def logger_debug_def emit_def
      init_world_def Let_def)

lemma thrown_missing:
  assumes "\<not> truthy (field b ''url'') \<or> \<not> truthy (field b ''authSecret'')"
  shows "thrown cfg L b = None"
  using assms unfolding thrown_def try_block_def
  by (simp add: io_defs init_world_def Let_def)

lemma thrown_unauthorised:
  assumes "truthy (field b ''url'')" and "truthy (field b ''authSecret'')"
    and "\<not> strict_equals (field b ''authSecret'') (env_value (AUTH_SECRET cfg))"
  shows "thrown cfg L b = None"
  using assms unfolding thrown_def try_block_def
  by (simp add: io_defs init_world_def Let_def)

lemma thrown_authorised:
  assumes "truthy (field b ''url'')" and "truthy (field b ''authSecret'')"
    and "strict_equals (field b ''authSecret'') (env_value (AUTH_SECRET cfg))"
  shows "thrown cfg L b =
     (case fst (pipeline cfg L (field b ''url'')
             (init_world\<lparr>w_events :=
                [Log ''info'' ''Starting new PDF generation request'',
                 Log ''debug'' ''Raw request body received'',
                 Log ''debug'' ''Request parameters received'',
                 Log ''debug'' ''Validating auth secret'']\<rparr>)) of
        Inl message \<Rightarrow> Some message
      | Inr u \<Rightarrow> None)"
  using assms unfolding thrown_def try_block_def
  by (simp add: io_then_def io_bind_def logger_info_def logger_debug_def emit_def
      init_world_def Let_def)

lemmas outcome_defs = catch_block_def io_defs init_world_def library_calls_def
  composited_overlays_def

lemma handler_qr_fails:
  assumes "truthy (field b ''url'')" and "truthy (field b ''authSecret'')"
    and "strict_equals (field b ''authSecret'') (env_value (AUTH_SECRET cfg))"
    and "lib_QRCode_toBuffer L (field b ''url'') qr_opts = Inl e"
  shows "w_res (generate_qr_pdf cfg L b) =
      \<lparr>res_status = 500, res_headers = [],
       res_json = Some (JObj [(''error'', JStr ''Failed to process image''),
                              (''details'', JStr ''Failed to generate QR code'')]),
       res_piped = False\<rparr>"
    and "w_doc (generate_qr_pdf cfg L b) = None"
    and "library_calls (generate_qr_pdf cfg L b) = [QRCode_toBuffer (field b ''url'') qr_opts]"
    and "composited_overlays (generate_qr_pdf cfg L b) = []"
    and "thrown cfg L b = Some ''Failed to generate QR code''"
  by (simp_all add: handler_authorised thrown_authorised assms pipeline_qr_fails [OF assms(4)]
      outcome_defs)

lemma handler_load_fails:
  assumes "truthy (field b ''url'')" and "truthy (field b ''authSecret'')"
    and "strict_equals (field b ''authSecret'') (env_value (AUTH_SECRET cfg))"
    and "lib_QRCode_toBuffer L (field b ''url'') qr_opts = Inr qr"
    and "lib_sharp_toBuffer L (TEMPLATE_PATH cfg) = Inl e"
  shows "w_res (generate_qr_pdf cfg L b) =
      \<lparr>res_status = 500, res_headers = [],
       res_json = Some (JObj [(''error'', JStr ''Failed to process image''),
                              (''details'', JStr e)]),
       res_piped = False\<rparr>"
    and "w_doc (generate_qr_pdf cfg L b) = None"
    and "library_calls (generate_qr_pdf cfg L b) =
      [QRCode_toBuffer (field b ''url'') qr_opts, Sharp_toBuffer (TEMPLATE_PATH cfg)]"
    and "composited_overlays (generate_qr_pdf cfg L b) = []"
    and "thrown cfg L b = Some e"
  by (simp_all add: handler_authorised thrown_authorised assms
      pipeline_load_fails [OF assms(4,5)] outcome_defs)

lemma handler_metadata_fails:
  assumes "truthy (field b ''url'')" and "truthy (field b ''authSecret'')"
    and "strict_equals (field b ''authSecret'') (env_value (AUTH_SECRET cfg))"
    and "lib_QRCode_toBuffer L (field b ''url'') qr_opts = Inr qr"
    and "lib_sharp_toBuffer L (TEMPLATE_PATH cfg) = Inr tpl"
    and "lib_sharp_metadata L tpl = Inl e"
  shows "w_res (generate_qr_pdf cfg L b) =
      \<lparr>res_status = 500, res_headers = [],
       res_json = Some (JObj [(''error'', JStr ''Failed to process image''),
                              (''details'', JStr e)]),
       res_piped = False\<rparr>"
    and "w_doc (generate_qr_pdf cfg L b) = None"
    and "library_calls (generate_qr_pdf cfg L b) =
      [QRCode_toBuffer (field b ''url'') qr_opts, Sharp_toBuffer (TEMPLATE_PATH cfg),
       Sharp_metadata tpl]"
    and "composited_overlays (generate_qr_pdf cfg L b) = []"
    and "thrown cfg L b = Some e"
  by (simp_all add: handler_authorised thrown_authorised assms
      pipeline_metadata_fails [OF assms(4,5,6)] outcome_defs)

lemma handler_composite_fails:
  assumes "truthy (field b ''url'')" and "truthy (field b ''authSecret'')"
    and "strict_equals (field b ''authSecret'') (env_value (AUTH_SECRET cfg))"
    and "lib_QRCode_toBuffer L (field b ''url'') qr_opts = Inr qr"
    and "lib_sharp_toBuffer L (TEMPLATE_PATH cfg) = Inr tpl"
    and "lib_sharp_metadata L tpl = Inr md"
    and "lib_sharp_composite L tpl [qrOverlay qr (md_width md)] = Inl e"
  shows "w_res (generate_qr_pdf cfg L b) =
      \<lparr>res_status = 500, res_headers = [],
       res_json = Some (JObj [(''error'', JStr ''Failed to process image''),
                              (''details'', JStr e)]),
       res_piped = False\<rparr>"
    and "w_doc (generate_qr_pdf cfg L b) = None"
    and "library_calls (generate_qr_pdf cfg L b) =
      [QRCode_toBuffer (field b ''url'') qr_opts, Sharp_toBuffer (TEMPLATE_PATH cfg),
       Sharp_metadata tpl, Sharp_composite tpl [qrOverlay qr (md_width md)]]"
    and "composited_overlays (generate_qr_pdf cfg L b) = [qrOverlay qr (md_width md)]"
    and "thrown cfg L b = Some e"
  by (simp_all add: handler_authorised thrown_authorised assms
      pipeline_composite_fails [OF assms(4,5,6,7)] outcome_defs)

lemma handler_ok:
  assumes "truthy (field b ''url'')" and "truthy (field b ''authSecret'')"
    and "strict_equals (field b ''authSecret'') (env_value (AUTH_SECRET cfg))"
    and "lib_QRCode_toBuffer L (field b ''url'') qr_opts = Inr qr"
    and "lib_sharp_toBuffer L (TEMPLATE_PATH cfg) = Inr tpl"
    and "lib_sharp_metadata L tpl = Inr md"
    and "lib_sharp_composite L tpl [qrOverlay qr (md_width md)] = Inr proc"
    and "lib_pdfkit_throws L (Doc_image proc 0 0 (md_width md) (md_height md)) = None"
    and "lib_pdfkit_throws L (Doc_font ''Helvetica-Bold'') = None"
    and "lib_pdfkit_throws L (Doc_fontSize (Math_round (of_int (md_width md) * 0.03))) = None"
    and "lib_pdfkit_throws L
           (Doc_text (field b ''url'') 0 (Math_round (of_int (md_height md) * 0.9)) ''center''
              (md_width md)) = None"
  shows "w_res (generate_qr_pdf cfg L b) =
      \<lparr>res_status = 200,
       res_headers = [(''Content-Type'', ''application/pdf''),
           (''Content-Disposition'', ''attachment; filename=qr-instructions.pdf'')],
       res_json = None, res_piped = True\<rparr>"
    and "w_doc (generate_qr_pdf cfg L b) =
      Some \<lparr>doc_size = (md_width md, md_height md), doc_margin = 0,
          doc_pages = \<lparr>page_size = (md_width md, md_height md), page_margin = 0,
            page_ops = [Doc_image proc 0 0 (md_width md) (md_height md),
               Doc_font ''Helvetica-Bold'',
               Doc_fontSize (Math_round (of_int (md_width md) * 0.03)),
               Doc_text (field b ''url'') 0 (Math_round (of_int (md_height md) * 0.9))
                 ''center'' (md_width md)]\<rparr>
            # replicate
                (lib_pdfkit_text_pages L (doc_at_text proc (md_width md) (md_height md))
                   (text_call (field b ''url'') (md_width md) (md_height md)))
                \<lparr>page_size = (md_width md, md_height md), page_margin = 0, page_ops = []\<rparr>,
          doc_ended = True\<rparr>"
    and "library_calls (generate_qr_pdf cfg L b) =
      [QRCode_toBuffer (field b ''url'') qr_opts, Sharp_toBuffer (TEMPLATE_PATH cfg),
       Sharp_metadata tpl, Sharp_composite tpl [qrOverlay qr (md_width md)]]"
    and "composited_overlays (generate_qr_pdf cfg L b) = [qrOverlay qr (md_width md)]"
    and "thrown cfg L b = None"
  by (simp_all add: handler_authorised thrown_authorised assms(1-3)
      pipeline_composited [OF assms(4,5,6,7)] create_pdf_ok [OF assms(8,9,10,11)] outcome_defs)

lemma handler_draw_throws:
  assumes "truthy (field b ''url'')" and "truthy (field b ''authSecret'')"
    and "strict_equals (field b ''authSecret'') (env_value (AUTH_SECRET cfg))"
    and "lib_QRCode_toBuffer L (field b ''url'') qr_opts = Inr qr"
    and "lib_sharp_toBuffer L (TEMPLATE_PATH cfg) = Inr tpl"
    and "lib_sharp_metadata L tpl = Inr md"
    and "lib_sharp_composite L tpl [qrOverlay qr (md_width md)] = Inr proc"
    and "\<not> (lib_pdfkit_throws L (Doc_image proc 0 0 (md_width md) (md_height md)) = None
      \<and> lib_pdfkit_throws L (Doc_font ''Helvetica-Bold'') = None
      \<and> lib_pdfkit_throws L (Doc_fontSize (Math_round (of_int (md_width md) * 0.03))) = None
      \<and> lib_pdfkit_throws L
           (Doc_text (field b ''url'') 0 (Math_round (of_int (md_height md) * 0.9)) ''center''
              (md_width md)) = None)"
  shows "\<exists>e. thrown cfg L b = Some e \<and> w_res (generate_qr_pdf cfg L b) =
      \<lparr>res_status = 500,
       res_headers = [(''Content-Type'', ''application/pdf''),
           (''Content-Disposition'', ''attachment; filename=qr-instructions.pdf'')],
       res_json = Some (JObj [(''error'', JStr ''Failed to process image''),
                              (''details'', JStr e)]),
       res_piped = True\<rparr>"
    and "\<exists>d. w_doc (generate_qr_pdf cfg L b) = Some d \<and> \<not> doc_ended d"
    and "library_calls (generate_qr_pdf cfg L b) =
      [QRCode_toBuffer (field b ''url'') qr_opts, Sharp_toBuffer (TEMPLATE_PATH cfg),
       Sharp_metadata tpl, Sharp_composite tpl [qrOverlay qr (md_width md)]]"
    and "composited_overlays (generate_qr_pdf cfg L b) = [qrOverlay qr (md_width md)]"
proof -
  let ?w = "init_world\<lparr>w_events :=
        [Log ''info'' ''Starting new PDF generation request'',
         Log ''debug'' ''Raw request body received'',
         Log ''debug'' ''Request parameters received'',
         Log ''debug'' ''Validating auth secret''] @
        [Log ''debug'' ''Auth secret validated successfully'',
         Log ''debug'' ''Generating QR code'',
         QRCode_toBuffer (field b ''url'') qr_opts,
         Log ''debug'' ''QR code generated successfully'',
         Log ''debug'' ''Loading template image'',
         Sharp_toBuffer (TEMPLATE_PATH cfg),
         Log ''debug'' ''Template image loaded successfully'',
         Sharp_metadata tpl,
         Log ''debug'' ''Template dimensions obtained'',
         Log ''debug'' ''QR code position calculated'',
         Log ''debug'' ''Compositing images'',
         Sharp_composite tpl [qrOverlay qr (md_width md)],
         Log ''debug'' ''Image composition completed'']\<rparr>"
  obtain e w' where run: "create_pdf L (field b ''url'') (md_width md) (md_height md) proc ?w
        = (Inl e, w')"
    and calls: "library_calls w' = library_calls ?w"
    and ovs: "composited_overlays w' = composited_overlays ?w"
    and res: "w_res w' = (w_res ?w)\<lparr>res_headers := res_headers (w_res ?w) @
          [(''Content-Type'', ''application/pdf''),
           (''Content-Disposition'', ''attachment; filename=qr-instructions.pdf'')],
          res_piped := True\<rparr>"
    and doc: "\<exists>d. w_doc w' = Some d \<and> \<not> doc_ended d"
    using create_pdf_throws [OF assms(8), of ?w] by blast
  have final: "generate_qr_pdf cfg L b = snd (catch_block e w')"
    using run
    by (simp add: handler_authorised assms(1-3) pipeline_composited [OF assms(4,5,6,7)]
        init_world_def)
  have thr: "thrown cfg L b = Some e"
    using run
    by (simp add: thrown_authorised assms(1-3) pipeline_composited [OF assms(4,5,6,7)]
        init_world_def)
  show "\<exists>e. thrown cfg L b = Some e \<and> w_res (generate_qr_pdf cfg L b) =
      \<lparr>res_status = 500,
       res_headers = [(''Content-Type'', ''application/pdf''),
           (''Content-Disposition'', ''attachment; filename=qr-instructions.pdf'')],
       res_json = Some (JObj [(''error'', JStr ''Failed to process image''),
                              (''details'', JStr e)]),
       res_piped = True\<rparr>"
    by (rule exI [of _ e]) (simp add: thr final res catch_block_def io_defs init_world_def)
  show "\<exists>d. w_doc (generate_qr_pdf cfg L b) = Some d \<and> \<not> doc_ended d"
    using doc by (simp add: final catch_block_def io_defs)
  have "library_calls (generate_qr_pdf cfg L b) = library_calls w'"
    by (simp add: final catch_block_def io_defs library_calls_def)
  also have "\<dots> = library_calls ?w"
    by (rule calls)
  also have "\<dots> = [QRCode_toBuffer (field b ''url'') qr_opts,
       Sharp_toBuffer (TEMPLATE_PATH cfg), Sharp_metadata tpl,
       Sharp_composite tpl [qrOverlay qr (md_width md)]]"
    by (simp add: library_calls_def init_world_def)
  finally show "library_calls (generate_qr_pdf cfg L b) =
      [QRCode_toBuffer (field b ''url'') qr_opts, Sharp_toBuffer (TEMPLATE_PATH cfg),
       Sharp_metadata tpl, Sharp_composite tpl [qrOverlay qr (md_width md)]]" .
  have "composited_overlays (generate_qr_pdf cfg L b) = composited_overlays w'"
    by (simp add: final catch_block_def io_defs composited_overlays_def)
  also have "\<dots> = composited_overlays ?w"
    by (rule ovs)
  also have "\<dots> = [qrOverlay qr (md_width md)]"
    by (simp add: composited_overlays_def init_world_def)
  finally show "composited_overlays (generate_qr_pdf cfg L b) = [qrOverlay qr (md_width md)]" .
qed

text \<open>Every request takes exactly one of eight paths through the handler.\<close>

lemma handler_cases
  [case_names missing unauthorised qr_fails load_fails metadata_fails composite_fails
    draw_throws ok]:
  obtains
    (missing) "\<not> truthy (field b ''url'') \<or> \<not> truthy (field b ''authSecret'')"
  | (unauthorised) "truthy (field b ''url'')" "truthy (field b ''authSecret'')"
      "\<not> strict_equals (field b ''authSecret'') (env_value (AUTH_SECRET cfg))"
  | (qr_fails) e where "truthy (field b ''url'')" "truthy (field b ''authSecret'')"
      "strict_equals (field b ''authSecret'') (env_value (AUTH_SECRET cfg))"
      "lib_QRCode_toBuffer L (field b ''url'') qr_opts = Inl e"
  | (load_fails) qr e where "truthy (field b ''url'')" "truthy (field b ''authSecret'')"
      "strict_equals (field b ''authSecret'') (env_value (AUTH_SECRET cfg))"
      "lib_QRCode_toBuffer L (field b ''url'') qr_opts = Inr qr"
      "lib_sharp_toBuffer L (TEMPLATE_PATH cfg) = Inl e"
  | (metadata_fails) qr tpl e where "truthy (field b ''url'')" "truthy (field b ''authSecret'')"
      "strict_equals (field b ''authSecret'') (env_value (AUTH_SECRET cfg))"
      "lib_QRCode_toBuffer L (field b ''url'') qr_opts = Inr qr"
      "lib_sharp_toBuffer L (TEMPLATE_PATH cfg) = Inr tpl"
      "lib_sharp_metadata L tpl = Inl e"
  | (composite_fails) qr tpl md e where "truthy (field b ''url'')"
      "truthy (field b ''authSecret'')"
      "strict_equals (field b ''authSecret'') (env_value (AUTH_SECRET cfg))"
      "lib_QRCode_toBuffer L (field b ''url'') qr_opts = Inr qr"
      "lib_sharp_toBuffer L (TEMPLATE_PATH cfg) = Inr tpl"
      "lib_sharp_metadata L tpl = Inr md"
      "lib_sharp_composite L tpl [qrOverlay qr (md_width md)] = Inl e"
  | (draw_throws) qr tpl md proc where "truthy (field b ''url'')"
      "truthy (field b ''authSecret'')"
      "strict_equals (field b ''authSecret'') (env_value (AUTH_SECRET cfg))"
      "lib_QRCode_toBuffer L (field b ''url'') qr_opts = Inr qr"
      "lib_sharp_toBuffer L (TEMPLATE_PATH cfg) = Inr tpl"
      "lib_sharp_metadata L tpl = Inr md"
      "lib_sharp_composite L tpl [qrOverlay qr (md_width md)] = Inr proc"
      "\<not> (lib_pdfkit_throws L (Doc_image proc 0 0 (md_width md) (md_height md)) = None
        \<and> lib_pdfkit_throws L (Doc_font ''Helvetica-Bold'') = None
        \<and> lib_pdfkit_throws L (Doc_fontSize (Math_round (of_int (md_width md) * 0.03))) = None
        \<and> lib_pdfkit_throws L
             (Doc_text (field b ''url'') 0 (Math_round (of_int (md_height md) * 0.9))
                ''center'' (md_width md)) = None)"
  | (ok) qr tpl md proc where "truthy (field b ''url'')" "truthy (field b ''authSecret'')"
      "strict_equals (field b ''authSecret'') (env_value (AUTH_SECRET cfg))"
      "lib_QRCode_toBuffer L (field b ''url'') qr_opts = Inr qr"
      "lib_sharp_toBuffer L (TEMPLATE_PATH cfg) = Inr tpl"
      "lib_sharp_metadata L tpl = Inr md"
      "lib_sharp_composite L tpl [qrOverlay qr (md_width md)] = Inr proc"
      "lib_pdfkit_throws L (Doc_image proc 0 0 (md_width md) (md_height md)) = None"
      "lib_pdfkit_throws L (Doc_font ''Helvetica-Bold'') = None"
      "lib_pdfkit_throws L (Doc_fontSize (Math_round (of_int (md_width md) * 0.03))) = None"
      "lib_pdfkit_throws L
         (Doc_text (field b ''url'') 0 (Math_round (of_int (md_height md) * 0.9))
            ''center'' (md_width md)) = None"
proof (cases "truthy (field b ''url'') \<and> truthy (field b ''authSecret'')")
  case False
  then show ?thesis using missing by blast
next
  case valid: True
  show ?thesis
  proof (cases "strict_equals (field b ''authSecret'') (env_value (AUTH_SECRET cfg))")
    case False
    with valid show ?thesis using unauthorised by blast
  next
    case auth: True
    show ?thesis
    proof (cases "lib_QRCode_toBuffer L (field b ''url'') qr_opts")
      case (Inl e)
      with valid auth show ?thesis using qr_fails by blast
    next
      case qr: (Inr qr)
      show ?thesis
      proof (cases "lib_sharp_toBuffer L (TEMPLATE_PATH cfg)")
        case (Inl e)
        with valid auth qr show ?thesis using load_fails by blast
      next
        case tpl: (Inr tpl)
        show ?thesis
        proof (cases "lib_sharp_metadata L tpl")
          case (Inl e)
          with valid auth qr tpl show ?thesis using metadata_fails by blast
        next
          case md: (Inr md)
          show ?thesis
          proof (cases "lib_sharp_composite L tpl [qrOverlay qr (md_width md)]")
            case (Inl e)
            with valid auth qr tpl md show ?thesis using composite_fails by blast
          next
            case proc: (Inr proc)
            show ?thesis
            proof (cases "lib_pdfkit_throws L (Doc_image proc 0 0 (md_width md) (md_height md)) = None
                \<and> lib_pdfkit_throws L (Doc_font ''Helvetica-Bold'') = None
                \<and> lib_pdfkit_throws L (Doc_fontSize (Math_round (of_int (md_width md) * 0.03))) = None
                \<and> lib_pdfkit_throws L
                     (Doc_text (field b ''url'') 0 (Math_round (of_int (md_height md) * 0.9))
                        ''center'' (md_width md)) = None")
              case False
              with valid auth qr tpl md proc show ?thesis using draw_throws by blast
            next
              case True
              with valid auth qr tpl md proc show ?thesis using ok by blast
            qed
          qed
        qed
      qed
    qed
  qed
qed

text \<open>The run of a valid request on the well-behaved libraries.\<close>

lemma stub_run:
  "w_res (generate_qr_pdf cfg0 stub_libs body_ok) =
      \<lparr>res_status = 200,
       res_headers = [(''Content-Type'', ''application/pdf''),
           (''Content-Disposition'', ''attachment; filename=qr-instructions.pdf'')],
       res_json = None, res_piped = True\<rparr>"
  "w_doc (generate_qr_pdf cfg0 stub_libs body_ok) =
      Some \<lparr>doc_size = (1000, 1414), doc_margin = 0,
          doc_pages = [\<lparr>page_size = (1000, 1414), page_margin = 0,
            page_ops = [Doc_image (blank_image 1000 1414) 0 0 1000 1414,
               Doc_font ''Helvetica-Bold'', Doc_fontSize 30,
               Doc_text (JStr ''https://example.com/x'') 0 1273 ''center'' 1000]\<rparr>],
          doc_ended = True\<rparr>"
  "library_calls (generate_qr_pdf cfg0 stub_libs body_ok) =
      [QRCode_toBuffer (JStr ''https://example.com/x'') qr_opts,
       Sharp_toBuffer ''/app/assets/template-white-elegant.png'',
       Sharp_metadata (blank_image 1000 1414),
       Sharp_composite (blank_image 1000 1414) [qrOverlay (blank_image 384 384) 1000]]"
  "composited_overlays (generate_qr_pdf cfg0 stub_libs body_ok) =
      [qrOverlay (blank_image 384 384) 1000]"
proof -
  have a: "truthy (field body_ok ''url'')" "truthy (field body_ok ''authSecret'')"
    "strict_equals (field body_ok ''authSecret'') (env_value (AUTH_SECRET cfg0))"
    by (simp_all add: field_def body_ok_def cfg0_def env_value_def)
  have q: "lib_QRCode_toBuffer stub_libs (field body_ok ''url'') qr_opts
      = Inr (blank_image 384 384)"
    by (simp add: stub_libs_def qr_opts_def QR_SIZE_def)
  have t: "lib_sharp_toBuffer stub_libs (TEMPLATE_PATH cfg0) = Inr (blank_image 1000 1414)"
    by (simp add: stub_libs_def)
  have m: "lib_sharp_metadata stub_libs (blank_image 1000 1414)
      = Inr \<lparr>md_width = 1000, md_height = 1414\<rparr>"
    by (simp add: stub_libs_def blank_image_def)
  have c: "lib_sharp_composite stub_libs (blank_image 1000 1414)
      [qrOverlay (blank_image 384 384) (md_width \<lparr>md_width = 1000, md_height = 1414\<rparr>)]
      = Inr (blank_image 1000 1414)"
    by (simp add: stub_libs_def)
  have d: "lib_pdfkit_throws stub_libs x = None" for x
    by (simp add: stub_libs_def)
  note run = handler_ok [OF a q t m c d d d d]
  have floors: "\<lfloor>61 / 2 :: rat\<rfloor> = 30" "\<lfloor>12731 / 10 :: rat\<rfloor> = 1273"
    by (simp_all add: floor_eq_iff)
  have pages: "lib_pdfkit_text_pages stub_libs
      \<lparr>doc_size = (1000, 1414), doc_margin = 0,
       doc_pages = [\<lparr>page_size = (1000, 1414), page_margin = 0,
         page_ops = [Doc_image (blank_image 1000 1414) 0 0 1000 1414,
            Doc_font ''Helvetica-Bold'', Doc_fontSize 30]\<rparr>],
       doc_ended = False\<rparr>
      (Doc_text (JStr ''https://example.com/x'') 0 1273 ''center'' 1000) = 0"
    by (simp add: stub_libs_def coarse_text_pages_def Let_def)
  show "w_res (generate_qr_pdf cfg0 stub_libs body_ok) =
      \<lparr>res_status = 200,
       res_headers = [(''Content-Type'', ''application/pdf''),
           (''Content-Disposition'', ''attachment; filename=qr-instructions.pdf'')],
       res_json = None, res_piped = True\<rparr>"
    by (rule run(1))
  show "w_doc (generate_qr_pdf cfg0 stub_libs body_ok) =
      Some \<lparr>doc_size = (1000, 1414), doc_margin = 0,
          doc_pages = [\<lparr>page_size = (1000, 1414), page_margin = 0,
            page_ops = [Doc_image (blank_image 1000 1414) 0 0 1000 1414,
               Doc_font ''Helvetica-Bold'', Doc_fontSize 30,
               Doc_text (JStr ''https://example.com/x'') 0 1273 ''center'' 1000]\<rparr>],
          doc_ended = True\<rparr>"
    using run(2)
    by (simp add: Math_round_def floors field_def body_ok_def pages)
  show "library_calls (generate_qr_pdf cfg0 stub_libs body_ok) =
      [QRCode_toBuffer (JStr ''https://example.com/x'') qr_opts,
       Sharp_toBuffer ''/app/assets/template-white-elegant.png'',
       Sharp_metadata (blank_image 1000 1414),
       Sharp_composite (blank_image 1000 1414) [qrOverlay (blank_image 384 384) 1000]]"
    using run(3) by (simp add: field_def body_ok_def TEMPLATE_PATH_def cfg0_def)
  show "composited_overlays (generate_qr_pdf cfg0 stub_libs body_ok) =
      [qrOverlay (blank_image 384 384) 1000]"
    using run(4) by simp
qed

section \<open>Validation and authentication\<close>

lemma absent_field_falsy: "b k = None \<Longrightarrow> \<not> truthy (field b k)"
  by (simp add: field_def)

lemma truthy_not_undefined: "truthy v \<Longrightarrow> \<not> strict_equals v JUndefined"
  by (cases v) simp_all

text \<open>
  Claim C1, as stated: every request whose \<^verbatim>\<open>authSecret\<close> does not equal the
  configured secret, the empty string included, is answered 401 with the body
  \<^verbatim>\<open>{ error: "Invalid authentication secret" }\<close>, and no pipeline stage runs. The
  handler tests the presence of both fields first: a request whose \<^verbatim>\<open>authSecret\<close> is
  the empty string is answered 400, not 401.
\<close>

theorem empty_secret_is_answered_400:
  "\<not> strict_equals (field (body_ok(''authSecret'' \<mapsto> JStr '''')) ''authSecret'')
        (env_value (AUTH_SECRET cfg0))
   \<and> res_status (w_res (generate_qr_pdf cfg0 stub_libs
          (body_ok(''authSecret'' \<mapsto> JStr '''')))) = 400
   \<and> res_json (w_res (generate_qr_pdf cfg0 stub_libs
          (body_ok(''authSecret'' \<mapsto> JStr '''')))) =
       Some (JObj [(''error'', JStr ''Missing required parameters''),
                   (''details'', JObj [(''url'', JStr ''provided''),
                                       (''authSecret'', JStr ''missing'')])])"
proof -
  have "\<not> truthy (field (body_ok(''authSecret'' \<mapsto> JStr '''')) ''url'')
      \<or> \<not> truthy (field (body_ok(''authSecret'' \<mapsto> JStr '''')) ''authSecret'')"
    by (simp add: field_def)
  with handler_missing
      [where b = "body_ok(''authSecret'' \<mapsto> JStr '''')" and cfg = cfg0 and L = stub_libs]
  show ?thesis
    by (simp add: field_def body_ok_def cfg0_def env_value_def)
qed

text \<open>
  Claim C1, amended: for every request whose \<^verbatim>\<open>authSecret\<close> does not equal the
  configured secret, no pipeline stage runs (no library is called, so QR encoding is
  never invoked, and no document is created or piped); the answer is 401 with the body
  \<^verbatim>\<open>{ error: "Invalid authentication secret" }\<close> when \<^verbatim>\<open>url\<close> and \<^verbatim>\<open>authSecret\<close>
  are both truthy, and 400 with the missing-parameters body otherwise.
\<close>

theorem secret_mismatch_runs_no_stage:
  assumes "\<not> strict_equals (field b ''authSecret'') (env_value (AUTH_SECRET cfg))"
  shows "library_calls (generate_qr_pdf cfg L b) = []
    \<and> w_doc (generate_qr_pdf cfg L b) = None
    \<and> \<not> res_piped (w_res (generate_qr_pdf cfg L b))
    \<and> (if truthy (field b ''url'') \<and> truthy (field b ''authSecret'')
        then res_status (w_res (generate_qr_pdf cfg L b)) = 401
          \<and> res_json (w_res (generate_qr_pdf cfg L b)) =
              Some (JObj [(''error'', JStr ''Invalid authentication secret'')])
        else res_status (w_res (generate_qr_pdf cfg L b)) = 400
          \<and> res_json (w_res (generate_qr_pdf cfg L b)) =
              Some (JObj [(''error'', JStr ''Missing required parameters''),
                (''details'',
                 JObj [(''url'',
                        JStr (if truthy (field b ''url'') then ''provided'' else ''missing'')),
                       (''authSecret'',
                        JStr (if truthy (field b ''authSecret'') then ''provided''
                              else ''missing''))])]))"
proof (cases "truthy (field b ''url'') \<and> truthy (field b ''authSecret'')")
  case True
  then have "truthy (field b ''url'')" and "truthy (field b ''authSecret'')"
    by simp_all
  from handler_unauthorised [OF this assms, of L] True show ?thesis
    by (simp add: library_calls_def)
next
  case False
  then have "\<not> truthy (field b ''url'') \<or> \<not> truthy (field b ''authSecret'')"
    by simp
  from handler_missing [OF this, of cfg L] False show ?thesis
    by (simp add: library_calls_def)
qed

theorem secret_mismatch_runs_no_stage_witness:
  "\<not> strict_equals (field (body_ok(''authSecret'' \<mapsto> JStr ''S3CRET'')) ''authSecret'')
        (env_value (AUTH_SECRET cfg0))
   \<and> library_calls (generate_qr_pdf cfg0 stub_libs
        (body_ok(''authSecret'' \<mapsto> JStr ''S3CRET''))) = []
   \<and> res_status (w_res (generate_qr_pdf cfg0 stub_libs
        (body_ok(''authSecret'' \<mapsto> JStr ''S3CRET'')))) = 401
   \<and> res_json (w_res (generate_qr_pdf cfg0 stub_libs
        (body_ok(''authSecret'' \<mapsto> JStr ''S3CRET'')))) =
      Some (JObj [(''error'', JStr ''Invalid authentication secret'')])"
proof -
  have ne: "\<not> strict_equals (field (body_ok(''authSecret'' \<mapsto> JStr ''S3CRET'')) ''authSecret'')
        (env_value (AUTH_SECRET cfg0))"
    by (simp add: field_def cfg0_def env_value_def)
  have "truthy (field (body_ok(''authSecret'' \<mapsto> JStr ''S3CRET'')) ''url'')
      \<and> truthy (field (body_ok(''authSecret'' \<mapsto> JStr ''S3CRET'')) ''authSecret'')"
    by (simp add: field_def body_ok_def)
  with secret_mismatch_runs_no_stage
      [where b = "body_ok(''authSecret'' \<mapsto> JStr ''S3CRET'')" and cfg = cfg0
        and L = stub_libs] ne
  show ?thesis
    by simp
qed

text \<open>
  Claim C2, as stated: when \<^verbatim>\<open>url\<close> or \<^verbatim>\<open>authSecret\<close> is missing, the answer is 400
  and each field of \<^verbatim>\<open>details\<close> is \<^verbatim>\<open>provided\<close> exactly when that field was supplied.
  A request that supplies \<^verbatim>\<open>url\<close> as the empty string and no \<^verbatim>\<open>authSecret\<close> has its
  \<^verbatim>\<open>url\<close> reported missing.
\<close>

theorem empty_url_is_reported_missing:
  "[''url'' \<mapsto> JStr ''''] ''authSecret'' = None
   \<and> [''url'' \<mapsto> JStr ''''] ''url'' = Some (JStr '''')
   \<and> res_status (w_res (generate_qr_pdf cfg0 stub_libs [''url'' \<mapsto> JStr ''''])) = 400
   \<and> res_json (w_res (generate_qr_pdf cfg0 stub_libs [''url'' \<mapsto> JStr ''''])) =
       Some (JObj [(''error'', JStr ''Missing required parameters''),
                   (''details'', JObj [(''url'', JStr ''missing''),
                                       (''authSecret'', JStr ''missing'')])])"
proof -
  have "\<not> truthy (field [''url'' \<mapsto> JStr ''''] ''url'')
      \<or> \<not> truthy (field [''url'' \<mapsto> JStr ''''] ''authSecret'')"
    by (simp add: field_def)
  with handler_missing [where b = "[''url'' \<mapsto> JStr '''']" and cfg = cfg0 and L = stub_libs]
  show ?thesis
    by (simp add: field_def)
qed

text \<open>
  Claim C2, amended: when \<^verbatim>\<open>url\<close> or \<^verbatim>\<open>authSecret\<close> is absent or falsy (\<^verbatim>\<open>null\<close>,
  \<^verbatim>\<open>false\<close>, \<^verbatim>\<open>0\<close> or the empty string), the answer is 400 with the body
  \<^verbatim>\<open>{ error: "Missing required parameters", details: { url, authSecret } }\<close>, where
  each field of \<^verbatim>\<open>details\<close> is \<^verbatim>\<open>provided\<close> exactly when the value of that field is
  truthy, and \<^verbatim>\<open>missing\<close> otherwise; no pipeline stage runs.
\<close>

theorem missing_parameters_answer:
  assumes "b ''url'' = None \<or> b ''authSecret'' = None
    \<or> \<not> truthy (field b ''url'') \<or> \<not> truthy (field b ''authSecret'')"
  shows "res_status (w_res (generate_qr_pdf cfg L b)) = 400
    \<and> res_json (w_res (generate_qr_pdf cfg L b)) =
        Some (JObj [(''error'', JStr ''Missing required parameters''),
          (''details'',
           JObj [(''url'',
                  JStr (if truthy (field b ''url'') then ''provided'' else ''missing'')),
                 (''authSecret'',
                  JStr (if truthy (field b ''authSecret'') then ''provided''
                        else ''missing''))])])
    \<and> library_calls (generate_qr_pdf cfg L b) = []"
proof -
  from assms have "\<not> truthy (field b ''url'') \<or> \<not> truthy (field b ''authSecret'')"
    using absent_field_falsy [of b "''url''"] absent_field_falsy [of b "''authSecret''"]
    by blast
  from handler_missing [OF this, of cfg L] show ?thesis
    by (simp add: library_calls_def)
qed

theorem missing_parameters_answer_witness:
  "[''url'' \<mapsto> JStr ''https://example.com/x''] ''authSecret'' = None
   \<and> res_status (w_res (generate_qr_pdf cfg0 stub_libs
        [''url'' \<mapsto> JStr ''https://example.com/x''])) = 400
   \<and> res_json (w_res (generate_qr_pdf cfg0 stub_libs
        [''url'' \<mapsto> JStr ''https://example.com/x''])) =
       Some (JObj [(''error'', JStr ''Missing required parameters''),
                   (''details'', JObj [(''url'', JStr ''provided''),
                                       (''authSecret'', JStr ''missing'')])])
   \<and> library_calls (generate_qr_pdf cfg0 stub_libs
        [''url'' \<mapsto> JStr ''https://example.com/x'']) = []"
proof -
  have "[''url'' \<mapsto> JStr ''https://example.com/x''] ''authSecret'' = None"
    by simp
  then have "[''url'' \<mapsto> JStr ''https://example.com/x''] ''url'' = None
      \<or> [''url'' \<mapsto> JStr ''https://example.com/x''] ''authSecret'' = None
      \<or> \<not> truthy (field [''url'' \<mapsto> JStr ''https://example.com/x''] ''url'')
      \<or> \<not> truthy (field [''url'' \<mapsto> JStr ''https://example.com/x''] ''authSecret'')"
    by blast
  with missing_parameters_answer
      [where b = "[''url'' \<mapsto> JStr ''https://example.com/x'']" and cfg = cfg0
        and L = stub_libs]
  show ?thesis
    by (simp add: field_def)
qed

text \<open>
  Claim C10: when \<^verbatim>\<open>AUTH_SECRET\<close> is unset, every request that passes the validation
  of its fields is answered 401, whatever \<^verbatim>\<open>authSecret\<close> it carries, and no pipeline
  stage runs.
\<close>

theorem unset_secret_rejects_every_request:
  assumes "AUTH_SECRET cfg = None"
    and "truthy (field b ''url'')" and "truthy (field b ''authSecret'')"
  shows "res_status (w_res (generate_qr_pdf cfg L b)) = 401
    \<and> res_json (w_res (generate_qr_pdf cfg L b)) =
        Some (JObj [(''error'', JStr ''Invalid authentication secret'')])
    \<and> library_calls (generate_qr_pdf cfg L b) = []
    \<and> w_doc (generate_qr_pdf cfg L b) = None"
proof -
  have "\<not> strict_equals (field b ''authSecret'') (env_value (AUTH_SECRET cfg))"
    using truthy_not_undefined [OF assms(3)] assms(1) by (simp add: env_value_def)
  from handler_unauthorised [OF assms(2,3) this, of L] show ?thesis
    by (simp add: library_calls_def)
qed

theorem unset_secret_rejects_every_request_witness:
  "AUTH_SECRET (cfg0\<lparr>AUTH_SECRET := None\<rparr>) = None
   \<and> truthy (field body_ok ''url'') \<and> truthy (field body_ok ''authSecret'')
   \<and> res_status (w_res (generate_qr_pdf (cfg0\<lparr>AUTH_SECRET := None\<rparr>) stub_libs body_ok)) = 401
   \<and> library_calls (generate_qr_pdf (cfg0\<lparr>AUTH_SECRET := None\<rparr>) stub_libs body_ok) = []"
proof -
  have a: "AUTH_SECRET (cfg0\<lparr>AUTH_SECRET := None\<rparr>) = None"
    by simp
  have b: "truthy (field body_ok ''url'')" "truthy (field body_ok ''authSecret'')"
    by (simp_all add: field_def body_ok_def)
  from unset_secret_rejects_every_request
      [where b = body_ok and cfg = "cfg0\<lparr>AUTH_SECRET := None\<rparr>" and L = stub_libs] a b
  show ?thesis
    by simp
qed

section \<open>The overlay and the document\<close>

text \<open>A request whose template loads composites nothing, or the one overlay of its QR code.\<close>

lemma composited_overlays_of_run:
  assumes tb: "lib_sharp_toBuffer L (TEMPLATE_PATH cfg) = Inr tpl"
    and mdh: "lib_sharp_metadata L tpl = Inr md"
  shows "composited_overlays (generate_qr_pdf cfg L b) = []
    \<or> (\<exists>qr. composited_overlays (generate_qr_pdf cfg L b) = [qrOverlay qr (md_width md)])"
proof (cases rule: handler_cases [where b = b and cfg = cfg and L = L])
  case missing
  then show ?thesis
    by (simp add: handler_missing composited_overlays_def)
next
  case unauthorised
  then show ?thesis
    by (simp add: handler_unauthorised composited_overlays_def)
next
  case (qr_fails e)
  then show ?thesis
    by (simp add: handler_qr_fails(4))
next
  case (load_fails qr e)
  then show ?thesis
    by (simp add: handler_load_fails(4))
next
  case (metadata_fails qr tpl' e)
  then show ?thesis
    by (simp add: handler_metadata_fails(4))
next
  case (composite_fails qr tpl' md' e)
  with tb mdh have "tpl' = tpl" and "md' = md"
    by simp_all
  with handler_composite_fails(4) [OF composite_fails] show ?thesis
    by blast
next
  case (draw_throws qr tpl' md' proc)
  with tb mdh have "tpl' = tpl" and "md' = md"
    by simp_all
  with handler_draw_throws(4) [OF draw_throws] show ?thesis
    by blast
next
  case (ok qr tpl' md' proc)
  with tb mdh have "tpl' = tpl" and "md' = md"
    by simp_all
  with handler_ok(4) [OF ok] show ?thesis
    by blast
qed

text \<open>A request that ends with the complete document went through every stage.\<close>

lemma complete_pdf_run:
  assumes tb: "lib_sharp_toBuffer L (TEMPLATE_PATH cfg) = Inr tpl"
    and mdh: "lib_sharp_metadata L tpl = Inr md"
    and fin: "complete_pdf (generate_qr_pdf cfg L b)"
  obtains qr proc where "lib_QRCode_toBuffer L (field b ''url'') qr_opts = Inr qr"
    and "lib_sharp_composite L tpl [qrOverlay qr (md_width md)] = Inr proc"
    and "composited_overlays (generate_qr_pdf cfg L b) = [qrOverlay qr (md_width md)]"
    and "w_doc (generate_qr_pdf cfg L b) =
      Some \<lparr>doc_size = (md_width md, md_height md), doc_margin = 0,
          doc_pages = \<lparr>page_size = (md_width md, md_height md), page_margin = 0,
            page_ops = [Doc_image proc 0 0 (md_width md) (md_height md),
               Doc_font ''Helvetica-Bold'',
               Doc_fontSize (Math_round (of_int (md_width md) * 0.03)),
               Doc_text (field b ''url'') 0 (Math_round (of_int (md_height md) * 0.9))
                 ''center'' (md_width md)]\<rparr>
            # replicate
                (lib_pdfkit_text_pages L (doc_at_text proc (md_width md) (md_height md))
                   (text_call (field b ''url'') (md_width md) (md_height md)))
                \<lparr>page_size = (md_width md, md_height md), page_margin = 0, page_ops = []\<rparr>,
          doc_ended = True\<rparr>"
    and "lib_pdfkit_throws L (Doc_image proc 0 0 (md_width md) (md_height md)) = None"
    and "lib_pdfkit_throws L (Doc_font ''Helvetica-Bold'') = None"
    and "lib_pdfkit_throws L (Doc_fontSize (Math_round (of_int (md_width md) * 0.03))) = None"
    and "lib_pdfkit_throws L
           (Doc_text (field b ''url'') 0 (Math_round (of_int (md_height md) * 0.9)) ''center''
              (md_width md)) = None"
proof (cases rule: handler_cases [where b = b and cfg = cfg and L = L])
  case missing
  with fin show ?thesis
    by (simp add: handler_missing complete_pdf_def)
next
  case unauthorised
  with fin show ?thesis
    by (simp add: handler_unauthorised complete_pdf_def)
next
  case (qr_fails e)
  with fin show ?thesis
    by (simp add: handler_qr_fails(1) complete_pdf_def)
next
  case (load_fails qr e)
  with fin show ?thesis
    by (simp add: handler_load_fails(1) complete_pdf_def)
next
  case (metadata_fails qr tpl' e)
  with fin show ?thesis
    by (simp add: handler_metadata_fails(1) complete_pdf_def)
next
  case (composite_fails qr tpl' md' e)
  with fin show ?thesis
    by (simp add: handler_composite_fails(1) complete_pdf_def)
next
  case (draw_throws qr tpl' md' proc)
  from handler_draw_throws(1) [OF draw_throws] fin show ?thesis
    by (auto simp add: complete_pdf_def)
next
  case (ok qr tpl' md' proc)
  with tb mdh have same: "tpl' = tpl" "md' = md"
    by simp_all
  from ok(4) ok(7) handler_ok(4) [OF ok] handler_ok(2) [OF ok] ok(8-11) show ?thesis
    unfolding same by (rule that)
qed

text \<open>
  Claim C6: in every composited image the overlay is placed at the horizontal offset
  \<open>round ((W - S) / 2)\<close>, for the template width \<open>W\<close> and the QR side \<open>S\<close>, and at the
  vertical offset 481 from the top, whatever the template height is.
\<close>

theorem overlay_offsets:
  assumes "lib_sharp_toBuffer L (TEMPLATE_PATH cfg) = Inr tpl"
    and "lib_sharp_metadata L tpl = Inr md"
    and "ov \<in> set (composited_overlays (generate_qr_pdf cfg L b))"
  shows "ov_left ov = round ((of_int (md_width md) - of_int QR_SIZE) / 2 :: rat)
    \<and> ov_top ov = 481"
  using composited_overlays_of_run [OF assms(1,2), of b] assms(3)
  by (auto simp add: qrOverlay_def round_is_Math_round)

theorem overlay_offsets_witness:
  "lib_sharp_toBuffer stub_libs (TEMPLATE_PATH cfg0) = Inr (blank_image 1000 1414)
   \<and> lib_sharp_metadata stub_libs (blank_image 1000 1414)
       = Inr \<lparr>md_width = 1000, md_height = 1414\<rparr>
   \<and> qrOverlay (blank_image 384 384) 1000
       \<in> set (composited_overlays (generate_qr_pdf cfg0 stub_libs body_ok))
   \<and> ov_left (qrOverlay (blank_image 384 384) 1000) = 308
   \<and> ov_top (qrOverlay (blank_image 384 384) 1000) = 481"
proof -
  have t: "lib_sharp_toBuffer stub_libs (TEMPLATE_PATH cfg0) = Inr (blank_image 1000 1414)"
    by (simp add: stub_libs_def)
  have m: "lib_sharp_metadata stub_libs (blank_image 1000 1414)
      = Inr \<lparr>md_width = 1000, md_height = 1414\<rparr>"
    by (simp add: stub_libs_def blank_image_def)
  have i: "qrOverlay (blank_image 384 384) 1000
      \<in> set (composited_overlays (generate_qr_pdf cfg0 stub_libs body_ok))"
    by (simp add: stub_run(4))
  from overlay_offsets [OF t m i] t m i show ?thesis
    by (simp add: QR_SIZE_def round_def floor_eq_iff)
qed

text \<open>
  Claim C3, as stated: for every valid request the centre-x coordinate of the QR overlay
  in the composited image equals \<open>round ((W - S) / 2)\<close>. On a template 1000 pixels wide
  the overlay of a 384 pixel QR code has its centre at x = 500, while
  \<open>round ((1000 - 384) / 2)\<close> is 308: the formula gives the left edge of the overlay.
\<close>

theorem overlay_center_is_not_the_offset:
  "complete_pdf (generate_qr_pdf cfg0 stub_libs body_ok)
   \<and> lib_sharp_metadata stub_libs (blank_image 1000 1414)
       = Inr \<lparr>md_width = 1000, md_height = 1414\<rparr>
   \<and> map overlay_center_x (composited_overlays (generate_qr_pdf cfg0 stub_libs body_ok))
       = [500]
   \<and> round ((of_int 1000 - of_int QR_SIZE) / 2 :: rat) = 308"
proof -
  have "complete_pdf (generate_qr_pdf cfg0 stub_libs body_ok)"
    by (simp add: complete_pdf_def stub_run)
  moreover have "lib_sharp_metadata stub_libs (blank_image 1000 1414)
      = Inr \<lparr>md_width = 1000, md_height = 1414\<rparr>"
    by (simp add: stub_libs_def blank_image_def)
  moreover have "map overlay_center_x
      (composited_overlays (generate_qr_pdf cfg0 stub_libs body_ok)) = [500]"
    by (simp add: stub_run(4) overlay_center_x_def qrOverlay_def blank_image_def
        Math_round_def QR_SIZE_def floor_eq_iff)
  moreover have "round ((of_int 1000 - of_int QR_SIZE) / 2 :: rat) = 308"
    by (simp add: QR_SIZE_def round_def floor_eq_iff)
  ultimately show ?thesis
    by blast
qed


text \<open>
  Claim C3, amended: for every valid request the left offset of the QR overlay in the
  composited image equals \<open>round ((W - S) / 2)\<close>, where \<open>W\<close> is the width of the
  template and \<open>S\<close> the fixed side length of the QR code.
\<close>

theorem overlay_left_offset:
  assumes "lib_sharp_toBuffer L (TEMPLATE_PATH cfg) = Inr tpl"
    and "lib_sharp_metadata L tpl = Inr md"
    and "complete_pdf (generate_qr_pdf cfg L b)"
  shows "\<exists>ov. composited_overlays (generate_qr_pdf cfg L b) = [ov]
    \<and> ov_left ov = round ((of_int (md_width md) - of_int QR_SIZE) / 2 :: rat)"
proof -
  from assms obtain qr
    where ovs: "composited_overlays (generate_qr_pdf cfg L b) = [qrOverlay qr (md_width md)]"
    by (rule complete_pdf_run)
  have "ov_left (qrOverlay qr (md_width md))
      = round ((of_int (md_width md) - of_int QR_SIZE) / 2 :: rat)"
    by (simp add: qrOverlay_def round_is_Math_round)
  with ovs show ?thesis
    by blast
qed

theorem overlay_left_offset_witness:
  "lib_sharp_toBuffer stub_libs (TEMPLATE_PATH cfg0) = Inr (blank_image 1000 1414)
   \<and> lib_sharp_metadata stub_libs (blank_image 1000 1414)
       = Inr \<lparr>md_width = 1000, md_height = 1414\<rparr>
   \<and> complete_pdf (generate_qr_pdf cfg0 stub_libs body_ok)
   \<and> composited_overlays (generate_qr_pdf cfg0 stub_libs body_ok)
       = [qrOverlay (blank_image 384 384) 1000]
   \<and> ov_left (qrOverlay (blank_image 384 384) 1000) = 308"
proof -
  have t: "lib_sharp_toBuffer stub_libs (TEMPLATE_PATH cfg0) = Inr (blank_image 1000 1414)"
    by (simp add: stub_libs_def)
  have m: "lib_sharp_metadata stub_libs (blank_image 1000 1414)
      = Inr \<lparr>md_width = 1000, md_height = 1414\<rparr>"
    by (simp add: stub_libs_def blank_image_def)
  have c: "complete_pdf (generate_qr_pdf cfg0 stub_libs body_ok)"
    by (simp add: complete_pdf_def stub_run)
  from overlay_left_offset [OF t m c] t m c show ?thesis
    by (simp add: stub_run(4) QR_SIZE_def round_def floor_eq_iff)
qed

section \<open>The pages and the text of the document\<close>

text \<open>The run of the valid request with the 200-character URL on the same libraries.\<close>

lemma long_run:
  "w_res (generate_qr_pdf cfg0 stub_libs body_long) =
      \<lparr>res_status = 200,
       res_headers = [(''Content-Type'', ''application/pdf''),
           (''Content-Disposition'', ''attachment; filename=qr-instructions.pdf'')],
       res_json = None, res_piped = True\<rparr>"
  "w_doc (generate_qr_pdf cfg0 stub_libs body_long) =
      Some \<lparr>doc_size = (1000, 1414), doc_margin = 0,
          doc_pages = [\<lparr>page_size = (1000, 1414), page_margin = 0,
            page_ops = [Doc_image (blank_image 1000 1414) 0 0 1000 1414,
               Doc_font ''Helvetica-Bold'', Doc_fontSize 30,
               Doc_text (JStr url_200) 0 1273 ''center'' 1000]\<rparr>,
            \<lparr>page_size = (1000, 1414), page_margin = 0, page_ops = []\<rparr>],
          doc_ended = True\<rparr>"
proof -
  have len: "length url_200 = 200"
    by (simp add: url_200_def)
  have ne: "url_200 \<noteq> []"
    using len by auto
  have a: "truthy (field body_long ''url'')" "truthy (field body_long ''authSecret'')"
    "strict_equals (field body_long ''authSecret'') (env_value (AUTH_SECRET cfg0))"
    using ne by (simp_all add: field_def body_long_def cfg0_def env_value_def)
  have q: "lib_QRCode_toBuffer stub_libs (field body_long ''url'') qr_opts
      = Inr (blank_image 384 384)"
    by (simp add: stub_libs_def qr_opts_def QR_SIZE_def)
  have t: "lib_sharp_toBuffer stub_libs (TEMPLATE_PATH cfg0) = Inr (blank_image 1000 1414)"
    by (simp add: stub_libs_def)
  have m: "lib_sharp_metadata stub_libs (blank_image 1000 1414)
      = Inr \<lparr>md_width = 1000, md_height = 1414\<rparr>"
    by (simp add: stub_libs_def blank_image_def)
  have c: "lib_sharp_composite stub_libs (blank_image 1000 1414)
      [qrOverlay (blank_image 384 384) (md_width \<lparr>md_width = 1000, md_height = 1414\<rparr>)]
      = Inr (blank_image 1000 1414)"
    by (simp add: stub_libs_def)
  have d: "lib_pdfkit_throws stub_libs x = None" for x
    by (simp add: stub_libs_def)
  note run = handler_ok [OF a q t m c d d d d]
  have floors: "\<lfloor>61 / 2 :: rat\<rfloor> = 30" "\<lfloor>12731 / 10 :: rat\<rfloor> = 1273"
    by (simp_all add: floor_eq_iff)
  have pages: "lib_pdfkit_text_pages stub_libs
      \<lparr>doc_size = (1000, 1414), doc_margin = 0,
       doc_pages = [\<lparr>page_size = (1000, 1414), page_margin = 0,
         page_ops = [Doc_image (blank_image 1000 1414) 0 0 1000 1414,
            Doc_font ''Helvetica-Bold'', Doc_fontSize 30]\<rparr>],
       doc_ended = False\<rparr>
      (Doc_text (JStr url_200) 0 1273 ''center'' 1000) = 1"
    by (simp add: stub_libs_def coarse_text_pages_def Let_def len)
  have u: "field body_long ''url'' = JStr url_200"
    by (simp add: field_def body_long_def)
  show "w_res (generate_qr_pdf cfg0 stub_libs body_long) =
      \<lparr>res_status = 200,
       res_headers = [(''Content-Type'', ''application/pdf''),
           (''Content-Disposition'', ''attachment; filename=qr-instructions.pdf'')],
       res_json = None, res_piped = True\<rparr>"
    by (rule run(1))
  show "w_doc (generate_qr_pdf cfg0 stub_libs body_long) =
      Some \<lparr>doc_size = (1000, 1414), doc_margin = 0,
          doc_pages = [\<lparr>page_size = (1000, 1414), page_margin = 0,
            page_ops = [Doc_image (blank_image 1000 1414) 0 0 1000 1414,
               Doc_font ''Helvetica-Bold'', Doc_fontSize 30,
               Doc_text (JStr url_200) 0 1273 ''center'' 1000]\<rparr>,
            \<lparr>page_size = (1000, 1414), page_margin = 0, page_ops = []\<rparr>],
          doc_ended = True\<rparr>"
    using run(2) by (simp add: Math_round_def floors u pages)
qed

text \<open>
  Claim C7, as stated: for every valid request the output document is a single page of
  size exactly \<open>(W, H)\<close> with margin 0, filled by the composited image. The handler gives
  \<^verbatim>\<open>doc.text\<close> the whole URL at \<open>y = round (0.9 * H)\<close> and sets no limit on its
  height, so a long URL wraps past the bottom of the page and continues on a new one: the
  valid request with the 200-character URL gets a document of two pages.
\<close>

theorem long_url_gets_a_second_page:
  "length url_200 = 200
   \<and> complete_pdf (generate_qr_pdf cfg0 stub_libs body_long)
   \<and> map_option (length \<circ> doc_pages) (w_doc (generate_qr_pdf cfg0 stub_libs body_long))
       = Some 2"
  by (simp add: long_run complete_pdf_def url_200_def)

text \<open>
  Claim C7, amended: for every valid request the first page of the output document has
  size exactly \<open>(W, H)\<close>, the pixel dimensions of the template, with margin 0, and the
  composited image is drawn first on it, stretched to fill the page at the origin
  \<open>(0, 0)\<close>; every further page has the same size and margin. The document has one
  page plus the pages that the layout of the URL text adds when the text does not fit
  below \<open>y = round (0.9 * H)\<close>; it is a single page exactly when the layout adds none.
\<close>

theorem first_page_of_template_size:
  assumes "lib_sharp_toBuffer L (TEMPLATE_PATH cfg) = Inr tpl"
    and "lib_sharp_metadata L tpl = Inr md"
    and "complete_pdf (generate_qr_pdf cfg L b)"
  shows "\<exists>qr proc d rest.
      lib_QRCode_toBuffer L (field b ''url'') qr_opts = Inr qr
    \<and> lib_sharp_composite L tpl [qrOverlay qr (md_width md)] = Inr proc
    \<and> w_doc (generate_qr_pdf cfg L b) = Some d
    \<and> doc_ended d
    \<and> doc_pages d =
        \<lparr>page_size = (md_width md, md_height md), page_margin = 0,
         page_ops = Doc_image proc 0 0 (md_width md) (md_height md) # rest\<rparr>
        # replicate
            (lib_pdfkit_text_pages L (doc_at_text proc (md_width md) (md_height md))
               (text_call (field b ''url'') (md_width md) (md_height md)))
            \<lparr>page_size = (md_width md, md_height md), page_margin = 0, page_ops = []\<rparr>
    \<and> (length (doc_pages d) = 1 \<longleftrightarrow>
         lib_pdfkit_text_pages L (doc_at_text proc (md_width md) (md_height md))
           (text_call (field b ''url'') (md_width md) (md_height md)) = 0)"
proof -
  from assms obtain qr proc
    where "lib_QRCode_toBuffer L (field b ''url'') qr_opts = Inr qr"
      and "lib_sharp_composite L tpl [qrOverlay qr (md_width md)] = Inr proc"
      and "w_doc (generate_qr_pdf cfg L b) =
      Some \<lparr>doc_size = (md_width md, md_height md), doc_margin = 0,
          doc_pages = \<lparr>page_size = (md_width md, md_height md), page_margin = 0,
            page_ops = [Doc_image proc 0 0 (md_width md) (md_height md),
               Doc_font ''Helvetica-Bold'',
               Doc_fontSize (Math_round (of_int (md_width md) * 0.03)),
               Doc_text (field b ''url'') 0 (Math_round (of_int (md_height md) * 0.9))
                 ''center'' (md_width md)]\<rparr>
            # replicate
                (lib_pdfkit_text_pages L (doc_at_text proc (md_width md) (md_height md))
                   (text_call (field b ''url'') (md_width md) (md_height md)))
                \<lparr>page_size = (md_width md, md_height md), page_margin = 0, page_ops = []\<rparr>,
          doc_ended = True\<rparr>"
    by (rule complete_pdf_run)
  then show ?thesis
    by simp
qed

theorem first_page_of_template_size_witness:
  "lib_sharp_toBuffer stub_libs (TEMPLATE_PATH cfg0) = Inr (blank_image 1000 1414)
   \<and> lib_sharp_metadata stub_libs (blank_image 1000 1414)
       = Inr \<lparr>md_width = 1000, md_height = 1414\<rparr>
   \<and> complete_pdf (generate_qr_pdf cfg0 stub_libs body_ok)
   \<and> map_option (map page_size \<circ> doc_pages) (w_doc (generate_qr_pdf cfg0 stub_libs body_ok))
       = Some [(1000, 1414)]
   \<and> map_option (map page_margin \<circ> doc_pages)
        (w_doc (generate_qr_pdf cfg0 stub_libs body_ok)) = Some [0]
   \<and> map_option (map (hd \<circ> page_ops) \<circ> doc_pages)
        (w_doc (generate_qr_pdf cfg0 stub_libs body_ok))
       = Some [Doc_image (blank_image 1000 1414) 0 0 1000 1414]"
proof -
  have t: "lib_sharp_toBuffer stub_libs (TEMPLATE_PATH cfg0) = Inr (blank_image 1000 1414)"
    by (simp add: stub_libs_def)
  have m: "lib_sharp_metadata stub_libs (blank_image 1000 1414)
      = Inr \<lparr>md_width = 1000, md_height = 1414\<rparr>"
    by (simp add: stub_libs_def blank_image_def)
  have c: "complete_pdf (generate_qr_pdf cfg0 stub_libs body_ok)"
    by (simp add: complete_pdf_def stub_run)
  from first_page_of_template_size [OF t m c] t m c show ?thesis
    by (simp add: stub_run(2))
qed

text \<open>
  Claim C8, as stated: for every valid request the URL is drawn centred, in bold, with the
  font size \<open>round (0.03 * W)\<close> and its baseline at \<open>y = round (0.9 * H)\<close>. The handler
  hands \<open>round (0.9 * H)\<close> to \<^verbatim>\<open>doc.text\<close> as \<open>y\<close> and passes no baseline option, so
  that is where the top of the line is; on the 1000 by 1414 template the baseline of the
  30-point text is at 1273 + 0.718 * 30 = 1294.54, not at \<open>round (0.9 * 1414)\<close> = 1273.
\<close>

theorem url_baseline_is_below_y:
  "complete_pdf (generate_qr_pdf cfg0 stub_libs body_ok)
   \<and> map (baseline_y stub_libs) (url_layers (generate_qr_pdf cfg0 stub_libs body_ok))
       = [129454 / 100]
   \<and> round (0.9 * 1414 :: rat) = 1273"
proof -
  have "complete_pdf (generate_qr_pdf cfg0 stub_libs body_ok)"
    by (simp add: complete_pdf_def stub_run)
  moreover have "url_layers (generate_qr_pdf cfg0 stub_libs body_ok) =
      [\<lparr>tl_text = JStr ''https://example.com/x'', tl_font = ''Helvetica-Bold'',
        tl_size = 30, tl_x = 0, tl_top = 1273, tl_align = ''center'', tl_width = 1000\<rparr>]"
    by (simp add: url_layers_def stub_run(2))
  then have "map (baseline_y stub_libs)
      (url_layers (generate_qr_pdf cfg0 stub_libs body_ok)) = [129454 / 100]"
    by (simp add: baseline_y_def stub_libs_def)
  moreover have "round (0.9 * 1414 :: rat) = 1273"
    by (simp add: round_def floor_eq_iff)
  ultimately show ?thesis
    by blast
qed

text \<open>
  Claim C8, amended: for every valid request the URL is drawn as one text layer, centred
  over the width \<open>W\<close> from \<open>x = 0\<close>, in the bold font Helvetica-Bold, with the font size
  \<open>round (0.03 * W)\<close> and the top of its first line at \<open>y = round (0.9 * H)\<close>; its
  baseline lies one ascender of that font lower, at
  \<open>round (0.9 * H) + ascender * round (0.03 * W)\<close>, where \<open>(W, H)\<close> are the dimensions
  of the template.
\<close>

theorem url_text_layer:
  assumes "lib_sharp_toBuffer L (TEMPLATE_PATH cfg) = Inr tpl"
    and "lib_sharp_metadata L tpl = Inr md"
    and "complete_pdf (generate_qr_pdf cfg L b)"
  shows "url_layers (generate_qr_pdf cfg L b) =
      [\<lparr>tl_text = field b ''url'', tl_font = ''Helvetica-Bold'',
        tl_size = round (0.03 * of_int (md_width md) :: rat), tl_x = 0,
        tl_top = round (0.9 * of_int (md_height md) :: rat), tl_align = ''center'',
        tl_width = md_width md\<rparr>]
    \<and> map (baseline_y L) (url_layers (generate_qr_pdf cfg L b)) =
      [of_int (round (0.9 * of_int (md_height md) :: rat))
        + lib_pdfkit_ascender L ''Helvetica-Bold''
          * of_int (round (0.03 * of_int (md_width md) :: rat))]"
proof -
  from assms obtain proc
    where "w_doc (generate_qr_pdf cfg L b) =
      Some \<lparr>doc_size = (md_width md, md_height md), doc_margin = 0,
          doc_pages = \<lparr>page_size = (md_width md, md_height md), page_margin = 0,
            page_ops = [Doc_image proc 0 0 (md_width md) (md_height md),
               Doc_font ''Helvetica-Bold'',
               Doc_fontSize (Math_round (of_int (md_width md) * 0.03)),
               Doc_text (field b ''url'') 0 (Math_round (of_int (md_height md) * 0.9))
                 ''center'' (md_width md)]\<rparr>
            # replicate
                (lib_pdfkit_text_pages L (doc_at_text proc (md_width md) (md_height md))
                   (text_call (field b ''url'') (md_width md) (md_height md)))
                \<lparr>page_size = (md_width md, md_height md), page_margin = 0, page_ops = []\<rparr>,
          doc_ended = True\<rparr>"
    by (rule complete_pdf_run)
  then show ?thesis
    by (simp add: url_layers_def baseline_y_def round_is_Math_round mult.commute)
qed

theorem url_text_layer_witness:
  "lib_sharp_toBuffer stub_libs (TEMPLATE_PATH cfg0) = Inr (blank_image 1000 1414)
   \<and> lib_sharp_metadata stub_libs (blank_image 1000 1414)
       = Inr \<lparr>md_width = 1000, md_height = 1414\<rparr>
   \<and> complete_pdf (generate_qr_pdf cfg0 stub_libs body_ok)
   \<and> url_layers (generate_qr_pdf cfg0 stub_libs body_ok) =
      [\<lparr>tl_text = JStr ''https://example.com/x'', tl_font = ''Helvetica-Bold'',
        tl_size = 30, tl_x = 0, tl_top = 1273, tl_align = ''center'', tl_width = 1000\<rparr>]"
proof -
  have t: "lib_sharp_toBuffer stub_libs (TEMPLATE_PATH cfg0) = Inr (blank_image 1000 1414)"
    by (simp add: stub_libs_def)
  have m: "lib_sharp_metadata stub_libs (blank_image 1000 1414)
      = Inr \<lparr>md_width = 1000, md_height = 1414\<rparr>"
    by (simp add: stub_libs_def blank_image_def)
  have c: "complete_pdf (generate_qr_pdf cfg0 stub_libs body_ok)"
    by (simp add: complete_pdf_def stub_run)
  have r: "round (3 * 1000 / 100 :: rat) = 30" "round (9 * 1414 / 10 :: rat) = 1273"
    by (simp_all add: round_def floor_eq_iff)
  have u: "field body_ok ''url'' = JStr ''https://example.com/x''"
    by (simp add: field_def body_ok_def)
  from url_text_layer [OF t m c] t m c show ?thesis
    by (simp add: u url_layers_def stub_run(2))
qed

section \<open>The body of the response\<close>

text \<open>The run of the valid request when drawing the text throws.\<close>

lemma text_fails_run:
  "io_then (logger_info ''Starting new PDF generation request'')
      (try_block cfg0 stub_libs_text_fails body_ok) init_world =
     (Inl ''RenderError'',
      \<lparr>w_events =
        [Log ''info'' ''Starting new PDF generation request'',
         Log ''debug'' ''Raw request body received'',
         Log ''debug'' ''Request parameters received'',
         Log ''debug'' ''Validating auth secret'',
         Log ''debug'' ''Auth secret validated successfully'',
         Log ''debug'' ''Generating QR code'',
         QRCode_toBuffer (JStr ''https://example.com/x'') qr_opts,
         Log ''debug'' ''QR code generated successfully'',
         Log ''debug'' ''Loading template image'',
         Sharp_toBuffer ''/app/assets/template-white-elegant.png'',
         Log ''debug'' ''Template image loaded successfully'',
         Sharp_metadata (blank_image 1000 1414),
         Log ''debug'' ''Template dimensions obtained'',
         Log ''debug'' ''QR code position calculated'',
         Log ''debug'' ''Compositing images'',
         Sharp_composite (blank_image 1000 1414) [qrOverlay (blank_image 384 384) 1000],
         Log ''debug'' ''Image composition completed'',
         Log ''debug'' ''Creating PDF document'',
         Log ''debug'' ''Adding image to PDF'',
         Log ''debug'' ''Adding URL text to PDF''],
       w_res = \<lparr>res_status = 200,
         res_headers = [(''Content-Type'', ''application/pdf''),
           (''Content-Disposition'', ''attachment; filename=qr-instructions.pdf'')],
         res_json = None, res_piped = True\<rparr>,
       w_doc = Some \<lparr>doc_size = (1000, 1414), doc_margin = 0,
          doc_pages = [\<lparr>page_size = (1000, 1414), page_margin = 0,
            page_ops = [Doc_image (blank_image 1000 1414) 0 0 1000 1414,
               Doc_font ''Helvetica-Bold'', Doc_fontSize 30]\<rparr>],
          doc_ended = False\<rparr>\<rparr>)"
  unfolding try_block_def pipeline_def create_pdf_def generateQRCode_def
  by (simp add: io_defs init_world_def Let_def field_def body_ok_def cfg0_def env_value_def
      stub_libs_text_fails_def stub_libs_def TEMPLATE_PATH_def blank_image_def qr_opts_def
      QR_SIZE_def record_op_def new_PDFDocument_def add_pages_def Math_round_def floor_eq_iff
      qrOverlay_def)

text \<open>
  Claim C5: for every request, either the complete PDF is produced and streamed as the
  body of the response, or the only body sent is the JSON error object; a failing stage
  never leaves a partly written PDF in the response. A PDF is the body only when every
  stage succeeded, and then the document holds all four drawing calls and is ended; when
  a stage throws, the body is the JSON error of status 500 with the message thrown.
\<close>

theorem no_partial_pdf_in_response:
  "((\<exists>d. body_sent (generate_qr_pdf cfg L b) = Pdf_body d)
      \<or> (\<exists>v. body_sent (generate_qr_pdf cfg L b) = Json_body v))
   \<and> (\<forall>d. body_sent (generate_qr_pdf cfg L b) = Pdf_body d \<longrightarrow>
         doc_ended d
       \<and> length (concat (map page_ops (doc_pages d))) = 4
       \<and> res_status (w_res (generate_qr_pdf cfg L b)) = 200
       \<and> thrown cfg L b = None
       \<and> (\<exists>qr tpl md proc.
             lib_QRCode_toBuffer L (field b ''url'') qr_opts = Inr qr
           \<and> lib_sharp_toBuffer L (TEMPLATE_PATH cfg) = Inr tpl
           \<and> lib_sharp_metadata L tpl = Inr md
           \<and> lib_sharp_composite L tpl [qrOverlay qr (md_width md)] = Inr proc
           \<and> lib_pdfkit_throws L (Doc_image proc 0 0 (md_width md) (md_height md)) = None
           \<and> lib_pdfkit_throws L (Doc_font ''Helvetica-Bold'') = None
           \<and> lib_pdfkit_throws L
                (Doc_fontSize (Math_round (of_int (md_width md) * 0.03))) = None
           \<and> lib_pdfkit_throws L (text_call (field b ''url'') (md_width md) (md_height md))
                = None))
   \<and> (\<forall>e. thrown cfg L b = Some e \<longrightarrow>
         body_sent (generate_qr_pdf cfg L b) =
           Json_body (JObj [(''error'', JStr ''Failed to process image''),
                            (''details'', JStr e)])
       \<and> res_status (w_res (generate_qr_pdf cfg L b)) = 500)"
proof (cases rule: handler_cases [where b = b and cfg = cfg and L = L])
  case missing
  then show ?thesis
    by (simp add: handler_missing thrown_missing body_sent_def)
next
  case unauthorised
  then show ?thesis
    by (simp add: handler_unauthorised thrown_unauthorised body_sent_def)
next
  case (qr_fails e)
  from handler_qr_fails(1,5) [OF qr_fails] show ?thesis
    by (simp add: body_sent_def)
next
  case (load_fails qr e)
  from handler_load_fails(1,5) [OF load_fails] show ?thesis
    by (simp add: body_sent_def)
next
  case (metadata_fails qr tpl e)
  from handler_metadata_fails(1,5) [OF metadata_fails] show ?thesis
    by (simp add: body_sent_def)
next
  case (composite_fails qr tpl md e)
  from handler_composite_fails(1,5) [OF composite_fails] show ?thesis
    by (simp add: body_sent_def)
next
  case (draw_throws qr tpl md proc)
  from handler_draw_throws(1) [OF draw_throws] show ?thesis
    by (auto simp add: body_sent_def)
next
  case (ok qr tpl md proc)
  have stages: "\<exists>qr tpl md proc.
             lib_QRCode_toBuffer L (field b ''url'') qr_opts = Inr qr
           \<and> lib_sharp_toBuffer L (TEMPLATE_PATH cfg) = Inr tpl
           \<and> lib_sharp_metadata L tpl = Inr md
           \<and> lib_sharp_composite L tpl [qrOverlay qr (md_width md)] = Inr proc
           \<and> lib_pdfkit_throws L (Doc_image proc 0 0 (md_width md) (md_height md)) = None
           \<and> lib_pdfkit_throws L (Doc_font ''Helvetica-Bold'') = None
           \<and> lib_pdfkit_throws L
                (Doc_fontSize (Math_round (of_int (md_width md) * 0.03))) = None
           \<and> lib_pdfkit_throws L (text_call (field b ''url'') (md_width md) (md_height md))
                = None"
    using ok(4-11) by blast
  from handler_ok(1,2,5) [OF ok] stages show ?thesis
    by (simp add: body_sent_def)
qed

theorem no_partial_pdf_in_response_witness:
  "thrown cfg0 stub_libs_text_fails body_ok = Some ''RenderError''
   \<and> res_piped (w_res (generate_qr_pdf cfg0 stub_libs_text_fails body_ok))
   \<and> body_sent (generate_qr_pdf cfg0 stub_libs_text_fails body_ok) =
       Json_body (JObj [(''error'', JStr ''Failed to process image''),
                        (''details'', JStr ''RenderError'')])
   \<and> res_status (w_res (generate_qr_pdf cfg0 stub_libs_text_fails body_ok)) = 500
   \<and> map_option doc_ended (w_doc (generate_qr_pdf cfg0 stub_libs body_ok)) = Some True
   \<and> (case body_sent (generate_qr_pdf cfg0 stub_libs body_ok) of
         Pdf_body d \<Rightarrow> length (concat (map page_ops (doc_pages d))) = 4
       | Json_body v \<Rightarrow> False
       | No_body \<Rightarrow> False)"
proof -
  have thr: "thrown cfg0 stub_libs_text_fails body_ok = Some ''RenderError''"
    by (simp add: thrown_def text_fails_run)
  have piped: "res_piped (w_res (generate_qr_pdf cfg0 stub_libs_text_fails body_ok))"
    unfolding generate_qr_pdf_def text_fails_run
    by (simp add: catch_block_def io_defs)
  have pdf: "body_sent (generate_qr_pdf cfg0 stub_libs body_ok) =
      Pdf_body \<lparr>doc_size = (1000, 1414), doc_margin = 0,
          doc_pages = [\<lparr>page_size = (1000, 1414), page_margin = 0,
            page_ops = [Doc_image (blank_image 1000 1414) 0 0 1000 1414,
               Doc_font ''Helvetica-Bold'', Doc_fontSize 30,
               Doc_text (JStr ''https://example.com/x'') 0 1273 ''center'' 1000]\<rparr>],
          doc_ended = True\<rparr>"
    by (simp add: body_sent_def stub_run)
  from no_partial_pdf_in_response
      [where b = body_ok and cfg = cfg0 and L = stub_libs_text_fails] thr
  have "body_sent (generate_qr_pdf cfg0 stub_libs_text_fails body_ok) =
       Json_body (JObj [(''error'', JStr ''Failed to process image''),
                        (''details'', JStr ''RenderError'')])
     \<and> res_status (w_res (generate_qr_pdf cfg0 stub_libs_text_fails body_ok)) = 500"
    by blast
  moreover from no_partial_pdf_in_response
      [where b = body_ok and cfg = cfg0 and L = stub_libs] pdf
  have "length (concat (map page_ops (doc_pages
      \<lparr>doc_size = (1000, 1414), doc_margin = 0,
          doc_pages = [\<lparr>page_size = (1000, 1414), page_margin = 0,
            page_ops = [Doc_image (blank_image 1000 1414) 0 0 1000 1414,
               Doc_font ''Helvetica-Bold'', Doc_fontSize 30,
               Doc_text (JStr ''https://example.com/x'') 0 1273 ''center'' 1000]\<rparr>],
          doc_ended = True\<rparr>))) = 4"
    by simp
  ultimately show ?thesis
    using thr piped pdf by (simp add: stub_run(2))
qed

section \<open>QR encoding\<close>









end
